theory Spec2Isabelle
  imports Main
begin

section \<open>The load checker: data model\<close>

text \<open>
  The repository holds three texts of the same program:
  \<^item> \<open>Prototype\<close>: the first text of \<open>src/unnamed/part_000\<close> (lines 33-335), a
    constructor with methods on its prototype and the single-use flag;
  \<^item> \<open>Static\<close>: the second text of \<open>src/unnamed/part_000\<close> (lines 360-660), one global
    object;
  \<^item> \<open>Public\<close>: \<open>src/public/javascripts/load-checker.js\<close>, one global object.
  A page loads one of them. Functions whose bodies agree in the three texts are modelled
  once; where the texts differ, each body has a definition of its own.
\<close>

datatype copy = Prototype | Static | Public

subsection \<open>The document\<close>

text \<open>A DOM node: its \<open>nodeType\<close> and its \<open>childNodes\<close>.\<close>

datatype node = Node (nodeType: nat) (childNodes: "node list")

definition ELEMENT_NODE :: nat where
  "ELEMENT_NODE = 1"

text \<open>
  \<open>_countElements(children)\<close>: the loop over \<open>children\<close> adds, for every element node,
  one and the count of its own children.
\<close>

fun countElements :: "node list \<Rightarrow> int" where
  "countElements [] = 0"
| "countElements (Node t cs # rest) =
     (if t = ELEMENT_NODE then 1 + countElements cs else 0) + countElements rest"

subsection \<open>Exceptions, callbacks and the console\<close>

text \<open>
  The program throws strings; each distinct message is a constructor. \<open>ReferenceError\<close>
  and \<open>TypeError\<close> are the language's own, \<open>HostError\<close> is a failure of a host
  primitive, \<open>UserError i\<close> is what the user callback \<open>i\<close> throws.
\<close>

datatype exn =
    ReferenceError | TypeError | HostError | UserError nat
  | ReuseError | ConfigurationError | SetupError | TimeoutError

text \<open>A user callback: a zero-argument action that returns or throws.\<close>

datatype callback = Callback (ident: nat) (raises: bool)

text \<open>One constructor for each \<open>console.log\<close> of the program.\<close>

datatype logEntry =
    NodeCountChanging | NodeCountSteady | DomChanging | DomSteady | MutationSeen
  | ObserverSetUp | ObserverUnavailable exn | UsingMutationObserver | UsingNodeCount
  | PageLoaded | TimeoutReached | ExecutedCallback | CallbackFailed exn
  | CleaningUp | CleaningUpAfter exn | ConfigurationInvalid | InstanceReused

text \<open>Which observer the periodic timer runs.\<close>

datatype strategy = MutationBased | PollingBased

text \<open>
  What the host offers for \<open>MutationObserver\<close>: it works, the constructor is undefined
  (so \<open>new\<close> throws), or \<open>observe\<close> throws whatever it is given.
\<close>

datatype support = Available | Unavailable | ObserveThrows

subsection \<open>The watcher and the page around it\<close>

text \<open>The fields of a \<open>LoadChecker\<close> (the leading underscore of each name is dropped).\<close>

record LoadChecker =
  CHECK_INTERVAL_MS :: int
  READY_AFTER_N_STEADY_STATE_INTERVALS :: int
  EXIT_REGARDLESS_AFTER_MAX_INTERVALS :: int
  domMutationOrNodeCountIntervalCheck :: "nat option"
  user_callback :: "callback option"
  lastKnownNodeCountForMutationEvent :: int
  lastKnownNodeCountForNodeCountCheck :: int
  mutationsCount :: int
  intervalCount :: int
  steadyStateIntervals :: int
  usedInstance :: bool

text \<open>The constructor (part_000, lines 33-55).\<close>

definition LoadChecker_new :: LoadChecker where
  "LoadChecker_new =
     \<lparr> CHECK_INTERVAL_MS = 500,
       READY_AFTER_N_STEADY_STATE_INTERVALS = 5,
       EXIT_REGARDLESS_AFTER_MAX_INTERVALS = 20,
       domMutationOrNodeCountIntervalCheck = None,
       user_callback = None,
       lastKnownNodeCountForMutationEvent = 0,
       lastKnownNodeCountForNodeCountCheck = 0,
       mutationsCount = 0,
       intervalCount = 0,
       steadyStateIntervals = 0,
       usedInstance = False \<rparr>"

text \<open>
  The page: the watcher, the text it loaded, the document, and the host state the
  program reads and writes.
  \<^item> \<open>globalCallback\<close>: whether the page has a global variable named \<open>callback\<close>
    (the README's example page declares one);
  \<^item> \<open>subscribed\<close>: a \<open>MutationObserver\<close> of the watcher observes the document;
  \<^item> \<open>intervals\<close>: the live \<open>setInterval\<close> timers, handle and observer, in the order
    of their registration;
  \<^item> \<open>timeouts\<close>: the pending \<open>setTimeout\<close>s of \<open>_executeCallbackAfterPageIsLoaded\<close>;
  \<^item> \<open>invoked\<close>: the user callbacks called so far, in order;
  \<^item> \<open>uncaught\<close>: the exceptions that left a timer callback, in order.
\<close>

record world =
  lc :: LoadChecker
  script :: copy
  document :: "node list"
  mutationSupport :: support
  setIntervalFails :: bool
  globalCallback :: bool
  subscribed :: bool
  intervals :: "(nat \<times> strategy) list"
  nextHandle :: nat
  timeouts :: nat
  invoked :: "nat list"
  console :: "logEntry list"
  uncaught :: "exn list"

text \<open>A page that has just loaded the script and built one watcher.\<close>

definition page :: "copy \<Rightarrow> node list \<Rightarrow> support \<Rightarrow> bool \<Rightarrow> world" where
  "page s d m g =
     \<lparr> lc = LoadChecker_new, script = s, document = d, mutationSupport = m,
       setIntervalFails = False, globalCallback = g, subscribed = False,
       intervals = [], nextHandle = 1, timeouts = 0, invoked = [], console = [],
       uncaught = [] \<rparr>"

section \<open>Host primitives\<close>

definition log :: "logEntry \<Rightarrow> world \<Rightarrow> world" where
  "log e w = w\<lparr>console := console w @ [e]\<rparr>"

text \<open>
  A \<open>console.log\<close> whose arguments mention the free variable \<open>callback\<close>: the variable
  is not a parameter of \<open>_executeCallbackAfterPageIsLoaded\<close>, so it is looked up in the
  global scope, and reading it throws when the page declares none.
\<close>

definition logWithCallback :: "logEntry \<Rightarrow> world \<Rightarrow> exn option \<times> world" where
  "logWithCallback e w =
     (if globalCallback w then (None, log e w) else (Some ReferenceError, w))"

definition setInterval :: "strategy \<Rightarrow> world \<Rightarrow> exn + (nat \<times> world)" where
  "setInterval obs w =
     (if setIntervalFails w then Inl HostError
      else Inr (nextHandle w,
                w\<lparr>intervals := intervals w @ [(nextHandle w, obs)],
                  nextHandle := Suc (nextHandle w)\<rparr>))"

text \<open>\<open>clearInterval(h)\<close>; a \<open>null\<close> handle clears nothing.\<close>

definition clearInterval :: "nat option \<Rightarrow> world \<Rightarrow> world" where
  "clearInterval h w =
     (case h of
        None \<Rightarrow> w
      | Some i \<Rightarrow> w\<lparr>intervals := filter (\<lambda>p. fst p \<noteq> i) (intervals w)\<rparr>)"

definition setTimeout :: "world \<Rightarrow> world" where
  "setTimeout w = w\<lparr>timeouts := Suc (timeouts w)\<rparr>"

text \<open>\<open>this._user_callback()\<close>: calling \<open>null\<close> throws a \<open>TypeError\<close>.\<close>

definition invoke :: "callback option \<Rightarrow> world \<Rightarrow> exn option \<times> world" where
  "invoke f w =
     (case f of
        None \<Rightarrow> (Some TypeError, w)
      | Some cb \<Rightarrow>
          (if raises cb then Some (UserError (ident cb)) else None,
           w\<lparr>invoked := invoked w @ [ident cb]\<rparr>))"

section \<open>The observers\<close>

text \<open>
  \<open>_nodeCountChangeObserver\<close> as part_000 has it (lines 81-92 and 431-442): a changed
  count resets the steady-state counter and records the count.
\<close>

definition nodeCountChangeObserver :: "world \<Rightarrow> world" where
  "nodeCountChangeObserver w =
     (let currentNodeCount = countElements (document w);
          isNodeListChanging = lastKnownNodeCountForNodeCountCheck (lc w) \<noteq> currentNodeCount
      in if isNodeListChanging
         then log NodeCountChanging
                (w\<lparr>lc := (lc w)\<lparr>steadyStateIntervals := 0,
                                 lastKnownNodeCountForNodeCountCheck := currentNodeCount\<rparr>\<rparr>)
         else log NodeCountSteady
                (w\<lparr>lc := (lc w)\<lparr>steadyStateIntervals := steadyStateIntervals (lc w) + 1\<rparr>\<rparr>))"

text \<open>
  \<open>_nodeCountChangeObserver\<close> as \<open>src/public/javascripts/load-checker.js\<close> has it
  (lines 65-76): a changed count is recorded, and the steady-state counter is left as
  it is.
\<close>

definition nodeCountChangeObserver_public :: "world \<Rightarrow> world" where
  "nodeCountChangeObserver_public w =
     (let currentNodeCount = countElements (document w);
          isNodeListChanging = lastKnownNodeCountForNodeCountCheck (lc w) \<noteq> currentNodeCount
      in if isNodeListChanging
         then log NodeCountChanging
                (w\<lparr>lc := (lc w)\<lparr>lastKnownNodeCountForNodeCountCheck := currentNodeCount\<rparr>\<rparr>)
         else log NodeCountSteady
                (w\<lparr>lc := (lc w)\<lparr>steadyStateIntervals := steadyStateIntervals (lc w) + 1\<rparr>\<rparr>))"

text \<open>\<open>_domMutationsCountObserver\<close>, the same in the three texts.\<close>

definition domMutationsCountObserver :: "world \<Rightarrow> world" where
  "domMutationsCountObserver w =
     (let isDomChanging = mutationsCount (lc w) > 0
      in if isDomChanging
         then (log DomChanging w)
                \<lparr>lc := (lc w)\<lparr>mutationsCount := 0, steadyStateIntervals := 0\<rparr>\<rparr>
         else log DomSteady
                (w\<lparr>lc := (lc w)\<lparr>steadyStateIntervals := steadyStateIntervals (lc w) + 1\<rparr>\<rparr>))"

text \<open>
  The function given to \<open>new MutationObserver\<close>: it recounts the elements and counts a
  mutation when the count differs from the one it recorded last.
\<close>

definition mutationCallback :: "world \<Rightarrow> world" where
  "mutationCallback w =
     (let w1 = log MutationSeen w;
          currentNodeCount = countElements (document w1);
          isNodeListCountChanging = lastKnownNodeCountForMutationEvent (lc w1) \<noteq> currentNodeCount;
          w2 = w1\<lparr>lc := (lc w1)\<lparr>lastKnownNodeCountForMutationEvent := currentNodeCount\<rparr>\<rparr>;
          w3 = (if isNodeListCountChanging
                then w2\<lparr>lc := (lc w2)\<lparr>mutationsCount := mutationsCount (lc w2) + 1\<rparr>\<rparr>
                else w2)
      in log MutationSeen w3)"

section \<open>Setup and cleanup\<close>

text \<open>
  \<open>document.documentElement\<close>: the element among the children of the document, \<open>null\<close>
  when the document has none.
\<close>

definition documentElement :: "world \<Rightarrow> node option" where
  "documentElement w = find (\<lambda>n. nodeType n = ELEMENT_NODE) (document w)"

text \<open>
  The body of the \<open>try\<close> of \<open>_setupMutationObserverIfPossible\<close>: build the observer and
  subscribe it to \<open>document.documentElement\<close>. Even a working \<open>observe\<close> throws a
  \<open>TypeError\<close> when its target is \<open>null\<close>.
\<close>

definition observeDocument :: "world \<Rightarrow> exn + world" where
  "observeDocument w =
     (case mutationSupport w of
        Unavailable \<Rightarrow> Inl TypeError
      | ObserveThrows \<Rightarrow> Inl HostError
      | Available \<Rightarrow>
          (case documentElement w of
             None \<Rightarrow> Inl TypeError
           | Some root \<Rightarrow> Inr (log ObserverSetUp (w\<lparr>subscribed := True\<rparr>))))"

text \<open>
  \<open>_setupMutationObserverIfPossible\<close>: the \<open>catch\<close> logs the exception and returns
  \<open>false\<close>. (A constructed observer is an object, hence truthy, so the three texts
  return the same value.)
\<close>

definition setupMutationObserverIfPossible :: "world \<Rightarrow> bool \<times> world" where
  "setupMutationObserverIfPossible w =
     (case observeDocument w of
        Inl ex \<Rightarrow> (False, log (ObserverUnavailable ex) w)
      | Inr w1 \<Rightarrow> (True, w1))"

text \<open>\<open>_initializeCounters\<close> (Prototype only).\<close>

definition initializeCounters :: "world \<Rightarrow> world" where
  "initializeCounters w =
     w\<lparr>lc := (lc w)\<lparr>steadyStateIntervals := 0, mutationsCount := 0, intervalCount := 0,
                     lastKnownNodeCountForMutationEvent := 0,
                     lastKnownNodeCountForNodeCountCheck := 0\<rparr>\<rparr>"

text \<open>
  The rest of \<open>_setupLoadChecker\<close> after the counters are reset, the same in the three
  texts: choose the observer, start the periodic timer and keep its handle.
\<close>

definition startIntervalCheck :: "world \<Rightarrow> exn option \<times> world" where
  "startIntervalCheck w =
     (case setupMutationObserverIfPossible w of
        (True, w1) \<Rightarrow>
          (case setInterval MutationBased w1 of
             Inl ex \<Rightarrow> (Some SetupError, w1)
           | Inr (h, w2) \<Rightarrow>
               (None, log UsingMutationObserver
                        (w2\<lparr>lc := (lc w2)\<lparr>domMutationOrNodeCountIntervalCheck := Some h\<rparr>\<rparr>)))
      | (False, w1) \<Rightarrow>
          (case setInterval PollingBased w1 of
             Inl ex \<Rightarrow> (Some SetupError, w1)
           | Inr (h, w2) \<Rightarrow>
               (None, log UsingNodeCount
                        (w2\<lparr>lc := (lc w2)\<lparr>domMutationOrNodeCountIntervalCheck := Some h\<rparr>\<rparr>))))"

text \<open>\<open>_setupLoadChecker\<close> of the Prototype text (lines 182-197).\<close>

definition setupLoadChecker :: "world \<Rightarrow> exn option \<times> world" where
  "setupLoadChecker w = startIntervalCheck (initializeCounters w)"

text \<open>
  \<open>_setupLoadChecker\<close> of the Static and Public texts: the two last-known node counts
  are not reset.
\<close>

definition setupLoadChecker_static :: "world \<Rightarrow> exn option \<times> world" where
  "setupLoadChecker_static w =
     startIntervalCheck
       (w\<lparr>lc := (lc w)\<lparr>steadyStateIntervals := 0, mutationsCount := 0, intervalCount := 0\<rparr>\<rparr>)"

text \<open>\<open>_cleanupLoadChecker\<close>: \<open>clearInterval\<close> does not throw.\<close>

definition cleanupLoadChecker :: "world \<Rightarrow> world" where
  "cleanupLoadChecker w = clearInterval (domMutationOrNodeCountIntervalCheck (lc w)) w"

section \<open>The driver\<close>

text \<open>\<open>_isPageLoaded\<close>: \<open>Inr\<close> the returned boolean, \<open>Inl\<close> the timeout it throws.\<close>

definition isPageLoaded :: "world \<Rightarrow> (exn + bool) \<times> world" where
  "isPageLoaded w =
     (if steadyStateIntervals (lc w) \<ge> READY_AFTER_N_STEADY_STATE_INTERVALS (lc w)
      then (Inr True, log PageLoaded w)
      else
        (let w1 = w\<lparr>lc := (lc w)\<lparr>intervalCount := intervalCount (lc w) + 1\<rparr>\<rparr>
         in if intervalCount (lc w1) > EXIT_REGARDLESS_AFTER_MAX_INTERVALS (lc w1)
            then (Inl TimeoutError, log TimeoutReached w1)
            else (Inr False, w1)))"

text \<open>
  The inner \<open>try / catch / finally\<close> of \<open>_executeCallbackAfterPageIsLoaded\<close>: call the
  user callback and log; an exception of either goes to the \<open>catch\<close>, whose own log
  mentions \<open>callback\<close> again; the \<open>finally\<close> cleans up whatever happened, and an
  exception thrown inside the \<open>catch\<close> goes on to the caller.
\<close>

definition callUserCallback :: "world \<Rightarrow> exn option \<times> world" where
  "callUserCallback w =
     (let (r1, w1) = invoke (user_callback (lc w)) w;
          (r2, w2) = (case r1 of
                        None \<Rightarrow> logWithCallback ExecutedCallback w1
                      | Some ex \<Rightarrow> (Some ex, w1));
          (r3, w3) = (case r2 of
                        None \<Rightarrow> (None, w2)
                      | Some ex \<Rightarrow> logWithCallback (CallbackFailed ex) w2)
      in (r3, cleanupLoadChecker (log CleaningUp w3)))"

text \<open>The outer \<open>catch\<close>: log, clean up, rethrow.\<close>

definition cleanupAndRethrow :: "exn \<Rightarrow> world \<Rightarrow> exn option \<times> world" where
  "cleanupAndRethrow ex w = (Some ex, cleanupLoadChecker (log (CleaningUpAfter ex) w))"

text \<open>\<open>_executeCallbackAfterPageIsLoaded\<close>: \<open>Some\<close> the exception it throws.\<close>

definition executeCallbackAfterPageIsLoaded :: "world \<Rightarrow> exn option \<times> world" where
  "executeCallbackAfterPageIsLoaded w =
     (case isPageLoaded w of
        (Inl ex, w1) \<Rightarrow> cleanupAndRethrow ex w1
      | (Inr True, w1) \<Rightarrow>
          (case callUserCallback w1 of
             (None, w2) \<Rightarrow> (None, w2)
           | (Some ex, w2) \<Rightarrow> cleanupAndRethrow ex w2)
      | (Inr False, w1) \<Rightarrow> (None, setTimeout w1))"

text \<open>\<open>_validateConfiguration\<close>.\<close>

definition validateConfiguration :: "world \<Rightarrow> exn option \<times> world" where
  "validateConfiguration w =
     (if READY_AFTER_N_STEADY_STATE_INTERVALS (lc w) \<ge> EXIT_REGARDLESS_AFTER_MAX_INTERVALS (lc w)
      then (Some ConfigurationError, log ConfigurationInvalid w)
      else (None, w))"

text \<open>\<open>callWhenReadyToGo\<close> of the Prototype text (lines 320-335).\<close>

definition callWhenReadyToGo :: "callback \<Rightarrow> world \<Rightarrow> exn option \<times> world" where
  "callWhenReadyToGo cb w =
     (if usedInstance (lc w) then (Some ReuseError, log InstanceReused w)
      else
        (let w1 = w\<lparr>lc := (lc w)\<lparr>usedInstance := True\<rparr>\<rparr>
         in case validateConfiguration w1 of
              (Some ex, w2) \<Rightarrow> (Some ex, w2)
            | (None, w2) \<Rightarrow>
                (case setupLoadChecker w2 of
                   (Some ex, w3) \<Rightarrow> (Some ex, w3)
                 | (None, w3) \<Rightarrow>
                     executeCallbackAfterPageIsLoaded
                       (w3\<lparr>lc := (lc w3)\<lparr>user_callback := Some cb\<rparr>\<rparr>))))"

text \<open>\<open>callWhenReadyToGo\<close> of the Static and Public texts: no single-use flag.\<close>

definition callWhenReadyToGo_static :: "callback \<Rightarrow> world \<Rightarrow> exn option \<times> world" where
  "callWhenReadyToGo_static cb w =
     (case validateConfiguration w of
        (Some ex, w2) \<Rightarrow> (Some ex, w2)
      | (None, w2) \<Rightarrow>
          (case setupLoadChecker_static w2 of
             (Some ex, w3) \<Rightarrow> (Some ex, w3)
           | (None, w3) \<Rightarrow>
               executeCallbackAfterPageIsLoaded
                 (w3\<lparr>lc := (lc w3)\<lparr>user_callback := Some cb\<rparr>\<rparr>)))"

section \<open>The host's event loop under a fake clock\<close>

text \<open>
  Both timers have the period \<open>_CHECK_INTERVAL_MS\<close>. The interval timer is registered
  (in setup) before the first timeout, and each later timeout is registered after the
  interval timer has fired, so on every tick of the clock the host runs the interval
  callbacks first and the pending timeouts after them. An exception that leaves a timer
  callback is reported to the host.
\<close>

definition runObserver :: "strategy \<Rightarrow> world \<Rightarrow> world" where
  "runObserver s w =
     (case s of
        MutationBased \<Rightarrow> domMutationsCountObserver w
      | PollingBased \<Rightarrow>
          (if script w = Public then nodeCountChangeObserver_public w
           else nodeCountChangeObserver w))"

definition intervalFire :: "world \<Rightarrow> world" where
  "intervalFire w = fold (\<lambda>p. runObserver (snd p)) (intervals w) w"

definition timerCall :: "world \<Rightarrow> world" where
  "timerCall w =
     (case executeCallbackAfterPageIsLoaded w of
        (None, w1) \<Rightarrow> w1
      | (Some ex, w1) \<Rightarrow> w1\<lparr>uncaught := uncaught w1 @ [ex]\<rparr>)"

fun fireTimeouts :: "nat \<Rightarrow> world \<Rightarrow> world" where
  "fireTimeouts 0 w = w"
| "fireTimeouts (Suc n) w = fireTimeouts n (timerCall w)"

definition timeoutFire :: "world \<Rightarrow> world" where
  "timeoutFire w = fireTimeouts (timeouts w) (w\<lparr>timeouts := 0\<rparr>)"

definition tick :: "world \<Rightarrow> world" where
  "tick w = timeoutFire (intervalFire w)"

text \<open>
  The page replaces its document; a subscribed \<open>MutationObserver\<close> is notified before
  the next timer runs.
\<close>

definition domChange :: "node list \<Rightarrow> world \<Rightarrow> world" where
  "domChange d w =
     (let w1 = w\<lparr>document := d\<rparr>
      in if subscribed w1 then mutationCallback w1 else w1)"

datatype event = Tick | DomChange "node list"

fun step :: "event \<Rightarrow> world \<Rightarrow> world" where
  "step Tick w = tick w"
| "step (DomChange d) w = domChange d w"

definition run :: "event list \<Rightarrow> world \<Rightarrow> world" where
  "run es w = fold step es w"

section \<open>Notions used by the statements\<close>

text \<open>
  The value of \<open>isDomChanging\<close> (mutation-based observer) and of \<open>isNodeListChanging\<close>
  (polling observer) at the next tick: whether the observer will detect a change.
\<close>

definition detected :: "strategy \<Rightarrow> world \<Rightarrow> bool" where
  "detected s w =
     (case s of
        MutationBased \<Rightarrow> mutationsCount (lc w) > 0
      | PollingBased \<Rightarrow>
          lastKnownNodeCountForNodeCountCheck (lc w) \<noteq> countElements (document w))"

text \<open>Whether subscribing a \<open>MutationObserver\<close> succeeds on this page.\<close>

definition observable :: "world \<Rightarrow> bool" where
  "observable w \<longleftrightarrow> mutationSupport w = Available \<and> documentElement w \<noteq> None"

text \<open>A caller that calls the entry point of one watcher again and again.\<close>

fun callRepeatedly :: "callback list \<Rightarrow> world \<Rightarrow> exn option list" where
  "callRepeatedly [] w = []"
| "callRepeatedly (cb # cbs) w =
     (case callWhenReadyToGo cb w of (r, w') \<Rightarrow> r # callRepeatedly cbs w')"

text \<open>Everything of a page but its console and the host's fixed capabilities.\<close>

definition view ::
  "world \<Rightarrow> LoadChecker \<times> copy \<times> node list \<times> bool \<times> bool \<times> (nat \<times> strategy) list
     \<times> nat \<times> nat list \<times> exn list" where
  "view w = (lc w, script w, document w, globalCallback w, subscribed w, intervals w,
             timeouts w, invoked w, uncaught w)"





text \<open>
  What no timer callback and no change of the document alters: \<open>keeps w v\<close> says that
  \<open>v\<close> has the used flag, the stored callback and the subscription of \<open>w\<close>, and that
  the callbacks called since \<open>w\<close> are all calls of the callback stored in \<open>w\<close>.
\<close>

definition keeps :: "world \<Rightarrow> world \<Rightarrow> bool" where
  "keeps w v \<longleftrightarrow>
     usedInstance (lc v) = usedInstance (lc w)
   \<and> user_callback (lc v) = user_callback (lc w)
   \<and> subscribed v = subscribed w
   \<and> (case user_callback (lc w) of
         None \<Rightarrow> invoked v = invoked w
       | Some c \<Rightarrow> (\<exists>k. invoked v = invoked w @ replicate k (ident c)))"


text \<open>
  The steady-state tracker as section 4.2 of the specification words it: a changed tick
  resets the count of consecutive steady intervals, an unchanged one increments it; the
  watch is loaded when the count reaches the required number; otherwise the elapsed
  intervals are incremented, and the watch times out when they exceed the maximum.
\<close>

datatype verdict = Watching | Loaded | TimedOut

record tracker =
  steadyIntervalsRequired :: int
  maxIntervals :: int
  consecutiveSteadyIntervals :: int
  elapsedIntervals :: int
  verdict :: verdict

definition trackerTick :: "bool \<Rightarrow> tracker \<Rightarrow> tracker" where
  "trackerTick changed t =
     (if verdict t \<noteq> Watching then t
      else
        (let t1 = (if changed then t\<lparr>consecutiveSteadyIntervals := 0\<rparr>
                   else t\<lparr>consecutiveSteadyIntervals := consecutiveSteadyIntervals t + 1\<rparr>)
         in if consecutiveSteadyIntervals t1 \<ge> steadyIntervalsRequired t1
            then t1\<lparr>verdict := Loaded\<rparr>
            else
              (let t2 = t1\<lparr>elapsedIntervals := elapsedIntervals t1 + 1\<rparr>
               in if elapsedIntervals t2 > maxIntervals t2 then t2\<lparr>verdict := TimedOut\<rparr>
                  else t2)))"

text \<open>The tracker state that a page holds.\<close>

definition tracked :: "world \<Rightarrow> tracker" where
  "tracked w =
     \<lparr> steadyIntervalsRequired = READY_AFTER_N_STEADY_STATE_INTERVALS (lc w),
       maxIntervals = EXIT_REGARDLESS_AFTER_MAX_INTERVALS (lc w),
       consecutiveSteadyIntervals = steadyStateIntervals (lc w),
       elapsedIntervals = intervalCount (lc w),
       verdict =
         (if intervals w \<noteq> [] then Watching
          else if steadyStateIntervals (lc w) \<ge> READY_AFTER_N_STEADY_STATE_INTERVALS (lc w)
          then Loaded else TimedOut) \<rparr>"

text \<open>
  A page (of a text of part_000) with one watch of strategy \<open>s\<close>: running, with its
  interval timer and one pending timeout, or ended, with neither.
\<close>

definition watch :: "strategy \<Rightarrow> world \<Rightarrow> bool" where
  "watch s w \<longleftrightarrow>
     script w \<noteq> Public
   \<and> user_callback (lc w) \<noteq> None
   \<and> (\<exists>h. domMutationOrNodeCountIntervalCheck (lc w) = Some h
          \<and> (intervals w = [(h, s)] \<and> timeouts w = Suc 0
               \<and> steadyStateIntervals (lc w) < READY_AFTER_N_STEADY_STATE_INTERVALS (lc w)
             \<or> intervals w = [] \<and> timeouts w = 0))"

text \<open>
  The changed/unchanged signal that the observer of strategy \<open>s\<close> finds at each tick of
  the events, as long as its timer runs.
\<close>

fun signals :: "strategy \<Rightarrow> event list \<Rightarrow> world \<Rightarrow> bool list" where
  "signals s [] w = []"
| "signals s (Tick # es) w =
     (if intervals w = [] then [] else [detected s w]) @ signals s es (tick w)"
| "signals s (DomChange d # es) w = signals s es (domChange d w)"


section \<open>The observers and the steady-state counter\<close>

lemmas observer_defs =
  runObserver_def domMutationsCountObserver_def nodeCountChangeObserver_def
  nodeCountChangeObserver_public_def log_def

lemma domMutationsCountObserver_steady:
  "steadyStateIntervals (lc (domMutationsCountObserver w)) =
     (if detected MutationBased w then 0 else steadyStateIntervals (lc w) + 1)"
  by (simp add: domMutationsCountObserver_def log_def detected_def)

lemma nodeCountChangeObserver_steady:
  "steadyStateIntervals (lc (nodeCountChangeObserver w)) =
     (if detected PollingBased w then 0 else steadyStateIntervals (lc w) + 1)"
  by (simp add: nodeCountChangeObserver_def log_def detected_def)

lemma nodeCountChangeObserver_public_steady:
  "steadyStateIntervals (lc (nodeCountChangeObserver_public w)) =
     (if detected PollingBased w then steadyStateIntervals (lc w)
      else steadyStateIntervals (lc w) + 1)"
  by (simp add: nodeCountChangeObserver_public_def log_def detected_def)

text \<open>
  Claim C1, at the input where the code departs from it. A page loads
  \<open>src/public/javascripts/load-checker.js\<close> without a \<open>MutationObserver\<close> and
  starts a watch on an empty document. After three ticks the steady-state counter is
  three. Then an element is added: the polling observer detects the change, and the
  counter is still three after it has run, and after the whole tick. (The mutation-based
  observer, and the polling observer of both texts of part_000, reset it: the three
  lemmas above.)
\<close>

theorem nodeCountChangeObserver_public_keeps_counter:
  "steadyStateIntervals (lc (run [Tick, Tick, Tick]
      (snd (callWhenReadyToGo_static (Callback 7 False) (page Public [] Unavailable True)))))
     = 3
   \<and> detected PollingBased (domChange [Node ELEMENT_NODE []] (run [Tick, Tick, Tick]
      (snd (callWhenReadyToGo_static (Callback 7 False) (page Public [] Unavailable True)))))
   \<and> steadyStateIntervals (lc (nodeCountChangeObserver_public
      (domChange [Node ELEMENT_NODE []] (run [Tick, Tick, Tick]
        (snd (callWhenReadyToGo_static (Callback 7 False) (page Public [] Unavailable True)))))))
     = 3
   \<and> steadyStateIntervals (lc (run [Tick, Tick, Tick, DomChange [Node ELEMENT_NODE []], Tick]
      (snd (callWhenReadyToGo_static (Callback 7 False) (page Public [] Unavailable True)))))
     = 3"
  by code_simp

section \<open>The lifecycle guard\<close>

lemma callWhenReadyToGo_used:
  "usedInstance (lc w) \<Longrightarrow>
   callWhenReadyToGo cb w = (Some ReuseError, log InstanceReused w)"
  by (simp add: callWhenReadyToGo_def)

lemma callRepeatedly_used:
  "usedInstance (lc w) \<Longrightarrow>
   callRepeatedly cbs w = replicate (length cbs) (Some ReuseError)"
  by (induction cbs arbitrary: w) (simp_all add: callWhenReadyToGo_used log_def)

lemma callWhenReadyToGo_invalid:
  assumes "\<not> usedInstance (lc w)"
    and "READY_AFTER_N_STEADY_STATE_INTERVALS (lc w)
           \<ge> EXIT_REGARDLESS_AFTER_MAX_INTERVALS (lc w)"
  shows "callWhenReadyToGo cb w =
           (Some ConfigurationError,
            log ConfigurationInvalid (w\<lparr>lc := (lc w)\<lparr>usedInstance := True\<rparr>\<rparr>))"
  using assms by (simp add: callWhenReadyToGo_def validateConfiguration_def)

lemma callWhenReadyToGo_static_invalid:
  assumes "READY_AFTER_N_STEADY_STATE_INTERVALS (lc w)
             \<ge> EXIT_REGARDLESS_AFTER_MAX_INTERVALS (lc w)"
  shows "callWhenReadyToGo_static cb w = (Some ConfigurationError, log ConfigurationInvalid w)"
  using assms by (simp add: callWhenReadyToGo_static_def validateConfiguration_def)

text \<open>
  Claim C6. On a watcher that has not been used, whose steady-state threshold is not
  below its interval budget, \<open>callWhenReadyToGo\<close> throws the configuration error from
  the call itself; no interval timer and no timeout has been registered (the timers and
  the next free handle are as before), nothing is subscribed, no callback was called and
  no timer callback has run.
\<close>

theorem callWhenReadyToGo_configuration_error:
  assumes "\<not> usedInstance (lc w)"
    and "READY_AFTER_N_STEADY_STATE_INTERVALS (lc w)
           \<ge> EXIT_REGARDLESS_AFTER_MAX_INTERVALS (lc w)"
  shows "fst (callWhenReadyToGo cb w) = Some ConfigurationError
       \<and> intervals (snd (callWhenReadyToGo cb w)) = intervals w
       \<and> timeouts (snd (callWhenReadyToGo cb w)) = timeouts w
       \<and> nextHandle (snd (callWhenReadyToGo cb w)) = nextHandle w
       \<and> subscribed (snd (callWhenReadyToGo cb w)) = subscribed w
       \<and> invoked (snd (callWhenReadyToGo cb w)) = invoked w
       \<and> uncaught (snd (callWhenReadyToGo cb w)) = uncaught w"
  using assms by (simp add: callWhenReadyToGo_invalid log_def)

theorem callWhenReadyToGo_configuration_error_witness:
  "fst (callWhenReadyToGo (Callback 1 False)
          ((page Prototype [] Available True)
             \<lparr>lc := LoadChecker_new\<lparr>READY_AFTER_N_STEADY_STATE_INTERVALS := 20\<rparr>\<rparr>))
     = Some ConfigurationError
   \<and> intervals (snd (callWhenReadyToGo (Callback 1 False)
          ((page Prototype [] Available True)
             \<lparr>lc := LoadChecker_new\<lparr>READY_AFTER_N_STEADY_STATE_INTERVALS := 20\<rparr>\<rparr>))) = []
   \<and> timeouts (snd (callWhenReadyToGo (Callback 1 False)
          ((page Prototype [] Available True)
             \<lparr>lc := LoadChecker_new\<lparr>READY_AFTER_N_STEADY_STATE_INTERVALS := 20\<rparr>\<rparr>))) = 0"
  using callWhenReadyToGo_configuration_error
          [of "(page Prototype [] Available True)
                 \<lparr>lc := LoadChecker_new\<lparr>READY_AFTER_N_STEADY_STATE_INTERVALS := 20\<rparr>\<rparr>"
              "Callback 1 False"]
  by (simp add: page_def LoadChecker_new_def)

text \<open>
  Claim C10. On a watcher that has not been used and whose configuration is invalid, the
  first call throws the configuration error and leaves the used flag set, and every
  call after it, with whatever callbacks, throws the reuse error.
\<close>

theorem callWhenReadyToGo_invalid_then_reuse:
  assumes "\<not> usedInstance (lc w)"
    and "READY_AFTER_N_STEADY_STATE_INTERVALS (lc w)
           \<ge> EXIT_REGARDLESS_AFTER_MAX_INTERVALS (lc w)"
  shows "fst (callWhenReadyToGo cb w) = Some ConfigurationError
       \<and> usedInstance (lc (snd (callWhenReadyToGo cb w)))
       \<and> callRepeatedly cbs (snd (callWhenReadyToGo cb w))
           = replicate (length cbs) (Some ReuseError)"
  using assms by (simp add: callWhenReadyToGo_invalid log_def callRepeatedly_used)

theorem callWhenReadyToGo_invalid_then_reuse_witness:
  "callRepeatedly [Callback 1 False, Callback 2 False, Callback 3 True]
     ((page Prototype [] Available True)
        \<lparr>lc := LoadChecker_new\<lparr>EXIT_REGARDLESS_AFTER_MAX_INTERVALS := 5\<rparr>\<rparr>)
     = [Some ConfigurationError, Some ReuseError, Some ReuseError]"
proof -
  let ?w = "(page Prototype [] Available True)
              \<lparr>lc := LoadChecker_new\<lparr>EXIT_REGARDLESS_AFTER_MAX_INTERVALS := 5\<rparr>\<rparr>"
  have fresh: "\<not> usedInstance (lc ?w)"
    by (simp add: page_def LoadChecker_new_def)
  have invalid: "READY_AFTER_N_STEADY_STATE_INTERVALS (lc ?w)
                   \<ge> EXIT_REGARDLESS_AFTER_MAX_INTERVALS (lc ?w)"
    by (simp add: page_def LoadChecker_new_def)
  from callWhenReadyToGo_invalid_then_reuse
         [OF fresh invalid, of "Callback 1 False" "[Callback 2 False, Callback 3 True]"]
  show ?thesis
    by (simp add: case_prod_beta)
qed


section \<open>One tick of a running watch\<close>

lemmas driver_defs =
  executeCallbackAfterPageIsLoaded_def isPageLoaded_def callUserCallback_def
  cleanupAndRethrow_def cleanupLoadChecker_def clearInterval_def invoke_def
  logWithCallback_def setTimeout_def log_def timerCall_def

lemma intervalFire_single: "intervals w = [(h, s)] \<Longrightarrow> intervalFire w = runObserver s w"
  by (simp add: intervalFire_def)

lemma runObserver_lc:
  "script w \<noteq> Public \<Longrightarrow>
   lc (runObserver s w) =
     (if detected s w
      then (case s of
              MutationBased \<Rightarrow> (lc w)\<lparr>mutationsCount := 0, steadyStateIntervals := 0\<rparr>
            | PollingBased \<Rightarrow>
                (lc w)\<lparr>steadyStateIntervals := 0,
                        lastKnownNodeCountForNodeCountCheck := countElements (document w)\<rparr>)
      else (lc w)\<lparr>steadyStateIntervals := steadyStateIntervals (lc w) + 1\<rparr>)"
  by (cases s) (simp_all add: observer_defs detected_def Let_def)

lemma runObserver_quiet_lc:
  "\<not> detected s w \<Longrightarrow>
   lc (runObserver s w) = (lc w)\<lparr>steadyStateIntervals := steadyStateIntervals (lc w) + 1\<rparr>"
  by (cases s) (simp_all add: observer_defs detected_def Let_def)


lemma timerCall_view:
  assumes "intervals v = [(h, s)]"
    and "domMutationOrNodeCountIntervalCheck (lc v) = Some h"
    and "user_callback (lc v) = Some cb"
  shows "view (timerCall v) =
           (let l = lc v in
            if steadyStateIntervals l \<ge> READY_AFTER_N_STEADY_STATE_INTERVALS l
            then (l, script v, document v, globalCallback v, subscribed v, [], timeouts v,
                  invoked v @ [ident cb],
                  uncaught v @ (if globalCallback v then [] else [ReferenceError]))
            else if intervalCount l + 1 > EXIT_REGARDLESS_AFTER_MAX_INTERVALS l
            then (l\<lparr>intervalCount := intervalCount l + 1\<rparr>, script v, document v,
                  globalCallback v, subscribed v, [], timeouts v, invoked v,
                  uncaught v @ [TimeoutError])
            else (l\<lparr>intervalCount := intervalCount l + 1\<rparr>, script v, document v,
                  globalCallback v, subscribed v, intervals v, Suc (timeouts v), invoked v,
                  uncaught v))"
  using assms
  by (simp add: view_def driver_defs Let_def)


lemma runObserver_fields:
  "script (runObserver s w) = script w"
  "document (runObserver s w) = document w"
  "mutationSupport (runObserver s w) = mutationSupport w"
  "setIntervalFails (runObserver s w) = setIntervalFails w"
  "globalCallback (runObserver s w) = globalCallback w"
  "subscribed (runObserver s w) = subscribed w"
  "intervals (runObserver s w) = intervals w"
  "nextHandle (runObserver s w) = nextHandle w"
  "timeouts (runObserver s w) = timeouts w"
  "invoked (runObserver s w) = invoked w"
  "uncaught (runObserver s w) = uncaught w"
  by (cases s; simp add: observer_defs Let_def)+

lemma runObserver_lc_fields:
  "READY_AFTER_N_STEADY_STATE_INTERVALS (lc (runObserver s w)) = READY_AFTER_N_STEADY_STATE_INTERVALS (lc w)"
  "EXIT_REGARDLESS_AFTER_MAX_INTERVALS (lc (runObserver s w)) = EXIT_REGARDLESS_AFTER_MAX_INTERVALS (lc w)"
  "domMutationOrNodeCountIntervalCheck (lc (runObserver s w)) = domMutationOrNodeCountIntervalCheck (lc w)"
  "user_callback (lc (runObserver s w)) = user_callback (lc w)"
  "usedInstance (lc (runObserver s w)) = usedInstance (lc w)"
  "intervalCount (lc (runObserver s w)) = intervalCount (lc w)"
  "lastKnownNodeCountForMutationEvent (lc (runObserver s w)) = lastKnownNodeCountForMutationEvent (lc w)"
  by (cases s; simp add: observer_defs Let_def)+

lemma tick_view:
  assumes "intervals w = [(h, s)]" "timeouts w = Suc 0"
    and "domMutationOrNodeCountIntervalCheck (lc w) = Some h"
    and "user_callback (lc w) = Some cb"
  shows "view (tick w) =
           (let l = lc (runObserver s w) in
            if steadyStateIntervals l \<ge> READY_AFTER_N_STEADY_STATE_INTERVALS l
            then (l, script w, document w, globalCallback w, subscribed w, [], 0,
                  invoked w @ [ident cb],
                  uncaught w @ (if globalCallback w then [] else [ReferenceError]))
            else if intervalCount l + 1 > EXIT_REGARDLESS_AFTER_MAX_INTERVALS l
            then (l\<lparr>intervalCount := intervalCount l + 1\<rparr>, script w, document w,
                  globalCallback w, subscribed w, [], 0, invoked w,
                  uncaught w @ [TimeoutError])
            else (l\<lparr>intervalCount := intervalCount l + 1\<rparr>, script w, document w,
                  globalCallback w, subscribed w, intervals w, Suc 0, invoked w,
                  uncaught w))"
proof -
  let ?v = "(runObserver s w)\<lparr>timeouts := 0\<rparr>"
  have t: "tick w = timerCall ?v"
    using assms by (simp add: tick_def intervalFire_single timeoutFire_def runObserver_fields)
  have "intervals ?v = [(h, s)]" "domMutationOrNodeCountIntervalCheck (lc ?v) = Some h"
    "user_callback (lc ?v) = Some cb"
    using assms by (simp_all add: runObserver_fields runObserver_lc_fields)
  from timerCall_view [OF this] show ?thesis
    using assms unfolding t by (simp add: runObserver_fields Let_def)
qed

lemma tick_terminal:
  "intervals w = [] \<Longrightarrow> timeouts w = 0 \<Longrightarrow> view (tick w) = view w"
  by (simp add: tick_def intervalFire_def timeoutFire_def view_def)

lemma run_append: "run (es @ fs) w = run fs (run es w)"
  by (simp add: run_def)

lemma run_ticks_Suc: "run (replicate (Suc n) Tick) w = tick (run (replicate n Tick) w)"
  by (simp add: run_def replicate_append_same [symmetric] del: replicate_Suc)

lemma run_ticks_add:
  "run (replicate (m + n) Tick) w = run (replicate n Tick) (run (replicate m Tick) w)"
  by (simp add: replicate_add run_append)

lemma run_terminal:
  "intervals w = [] \<Longrightarrow> timeouts w = 0 \<Longrightarrow> view (run (replicate n Tick) w) = view w"
proof (induction n)
  case 0
  show ?case by (simp add: run_def)
next
  case (Suc n)
  let ?v = "run (replicate n Tick) w"
  from Suc have v: "view ?v = view w" by simp
  with Suc.prems have "intervals ?v = []" "timeouts ?v = 0"
    by (simp_all add: view_def)
  then have "view (tick ?v) = view ?v" by (rule tick_terminal)
  with v show ?case unfolding run_ticks_Suc by simp
qed

lemma detected_cong:
  "lc v = (lc w)\<lparr>steadyStateIntervals := a, intervalCount := b\<rparr> \<Longrightarrow> document v = document w
   \<Longrightarrow> detected s v = detected s w"
  by (cases s) (simp_all add: detected_def)

lemma quiet_run:
  assumes "intervals w = [(h, s)]" "timeouts w = Suc 0"
    and "domMutationOrNodeCountIntervalCheck (lc w) = Some h"
    and "user_callback (lc w) = Some cb"
    and "\<not> detected s w"
  shows "steadyStateIntervals (lc w) + int n < READY_AFTER_N_STEADY_STATE_INTERVALS (lc w) \<Longrightarrow>
         intervalCount (lc w) + int n \<le> EXIT_REGARDLESS_AFTER_MAX_INTERVALS (lc w) \<Longrightarrow>
         view (run (replicate n Tick) w) =
           ((lc w)\<lparr>steadyStateIntervals := steadyStateIntervals (lc w) + int n,
                    intervalCount := intervalCount (lc w) + int n\<rparr>,
            script w, document w, globalCallback w, subscribed w, intervals w, Suc 0,
            invoked w, uncaught w)"
proof (induction n)
  case 0
  with assms show ?case by (simp add: run_def view_def)
next
  case (Suc n)
  let ?v = "run (replicate n Tick) w"
  from Suc have v: "view ?v =
           ((lc w)\<lparr>steadyStateIntervals := steadyStateIntervals (lc w) + int n,
                    intervalCount := intervalCount (lc w) + int n\<rparr>,
            script w, document w, globalCallback w, subscribed w, intervals w, Suc 0,
            invoked w, uncaught w)"
    by simp
  then have l: "lc ?v = (lc w)\<lparr>steadyStateIntervals := steadyStateIntervals (lc w) + int n,
                    intervalCount := intervalCount (lc w) + int n\<rparr>"
    and f: "script ?v = script w" "document ?v = document w"
      "globalCallback ?v = globalCallback w" "subscribed ?v = subscribed w"
      "intervals ?v = intervals w" "timeouts ?v = Suc 0" "invoked ?v = invoked w"
      "uncaught ?v = uncaught w"
    by (simp_all add: view_def)
  have q: "\<not> detected s ?v"
    using detected_cong [OF l f(2)] assms(5) by simp
  have shape: "intervals ?v = [(h, s)]" "timeouts ?v = Suc 0"
    "domMutationOrNodeCountIntervalCheck (lc ?v) = Some h" "user_callback (lc ?v) = Some cb"
    using assms f l by simp_all
  show ?case
    unfolding run_ticks_Suc using Suc.prems
    by (simp add: tick_view [OF shape] runObserver_quiet_lc [OF q] l f Let_def add.assoc)
qed

lemma quiet_load:
  assumes "intervals w = [(h, s)]" "timeouts w = Suc 0"
    and "domMutationOrNodeCountIntervalCheck (lc w) = Some h"
    and "user_callback (lc w) = Some cb"
    and "\<not> detected s w"
    and "steadyStateIntervals (lc w) + 1 \<ge> READY_AFTER_N_STEADY_STATE_INTERVALS (lc w)"
  shows "view (tick w) =
           ((lc w)\<lparr>steadyStateIntervals := steadyStateIntervals (lc w) + 1\<rparr>,
            script w, document w, globalCallback w, subscribed w, [], 0,
            invoked w @ [ident cb],
            uncaught w @ (if globalCallback w then [] else [ReferenceError]))"
  using assms(6)
  by (simp add: tick_view [OF assms(1-4)] runObserver_quiet_lc [OF assms(5)] Let_def)

lemma countElements_no_element:
  "find (\<lambda>n. nodeType n = ELEMENT_NODE) ds = None \<Longrightarrow> countElements ds = 0"
proof (induction ds)
  case Nil
  show ?case by simp
next
  case (Cons d ds)
  then show ?case
    by (cases d) (simp split: if_splits)
qed

lemma unobservable_count:
  "mutationSupport w = Available \<Longrightarrow> \<not> observable w \<Longrightarrow> countElements (document w) = 0"
  by (simp add: observable_def documentElement_def countElements_no_element)

lemmas setup_defs =
  callWhenReadyToGo_def validateConfiguration_def setupLoadChecker_def
  initializeCounters_def startIntervalCheck_def setupMutationObserverIfPossible_def
  observeDocument_def documentElement_def setInterval_def

lemma callWhenReadyToGo_starts:
  assumes "\<not> usedInstance (lc w)" "\<not> setIntervalFails w"
    and "0 < READY_AFTER_N_STEADY_STATE_INTERVALS (lc w)"
    and "READY_AFTER_N_STEADY_STATE_INTERVALS (lc w) < EXIT_REGARDLESS_AFTER_MAX_INTERVALS (lc w)"
  shows "fst (callWhenReadyToGo cb w) = None"
    and "view (snd (callWhenReadyToGo cb w)) =
           ((lc w)\<lparr>usedInstance := True, steadyStateIntervals := 0, mutationsCount := 0,
                    intervalCount := 1, lastKnownNodeCountForMutationEvent := 0,
                    lastKnownNodeCountForNodeCountCheck := 0,
                    domMutationOrNodeCountIntervalCheck := Some (nextHandle w),
                    user_callback := Some cb\<rparr>,
            script w, document w, globalCallback w,
            subscribed w \<or> observable w,
            intervals w @ [(nextHandle w,
               if observable w then MutationBased else PollingBased)],
            Suc (timeouts w), invoked w, uncaught w)"
  using assms
  by (cases "mutationSupport w";
      cases "find (\<lambda>n. nodeType n = ELEMENT_NODE) (document w)";
      simp add: setup_defs driver_defs view_def observable_def)+

section \<open>A document that never changes\<close>

lemma quiet_watch:
  assumes shape: "intervals w = [(h, s)]" "timeouts w = Suc 0"
      "domMutationOrNodeCountIntervalCheck (lc w) = Some h"
      "user_callback (lc w) = Some cb"
    and q: "\<not> detected s w"
    and st: "steadyStateIntervals (lc w) < READY_AFTER_N_STEADY_STATE_INTERVALS (lc w)"
    and ic: "intervalCount (lc w) + READY_AFTER_N_STEADY_STATE_INTERVALS (lc w)
               \<le> EXIT_REGARDLESS_AFTER_MAX_INTERVALS (lc w) + steadyStateIntervals (lc w) + 1"
  shows "view (run (replicate n Tick) w) =
           (if steadyStateIntervals (lc w) + int n < READY_AFTER_N_STEADY_STATE_INTERVALS (lc w)
            then ((lc w)\<lparr>steadyStateIntervals := steadyStateIntervals (lc w) + int n,
                          intervalCount := intervalCount (lc w) + int n\<rparr>,
                  script w, document w, globalCallback w, subscribed w, intervals w, Suc 0,
                  invoked w, uncaught w)
            else ((lc w)\<lparr>steadyStateIntervals := READY_AFTER_N_STEADY_STATE_INTERVALS (lc w),
                          intervalCount := intervalCount (lc w)
                            + READY_AFTER_N_STEADY_STATE_INTERVALS (lc w)
                            - steadyStateIntervals (lc w) - 1\<rparr>,
                  script w, document w, globalCallback w, subscribed w, [], 0,
                  invoked w @ [ident cb],
                  uncaught w @ (if globalCallback w then [] else [ReferenceError])))"
proof (cases "steadyStateIntervals (lc w) + int n < READY_AFTER_N_STEADY_STATE_INTERVALS (lc w)")
  case True
  with ic have "intervalCount (lc w) + int n \<le> EXIT_REGARDLESS_AFTER_MAX_INTERVALS (lc w)"
    by simp
  from quiet_run [OF shape q True this] True show ?thesis by simp
next
  case False
  define m where
    "m = nat (READY_AFTER_N_STEADY_STATE_INTERVALS (lc w) - steadyStateIntervals (lc w) - 1)"
  have m: "int m = READY_AFTER_N_STEADY_STATE_INTERVALS (lc w) - steadyStateIntervals (lc w) - 1"
    using st by (simp add: m_def)
  with False have mn: "Suc m \<le> n" by linarith
  define k where "k = n - Suc m"
  from mn have n: "n = Suc m + k" by (simp add: k_def)
  let ?v = "run (replicate m Tick) w"
  have b1: "steadyStateIntervals (lc w) + int m < READY_AFTER_N_STEADY_STATE_INTERVALS (lc w)"
    using m by simp
  have b2: "intervalCount (lc w) + int m \<le> EXIT_REGARDLESS_AFTER_MAX_INTERVALS (lc w)"
    using m ic by simp
  from quiet_run [OF shape q b1 b2]
  have l: "lc ?v = (lc w)\<lparr>steadyStateIntervals := steadyStateIntervals (lc w) + int m,
                    intervalCount := intervalCount (lc w) + int m\<rparr>"
    and f: "script ?v = script w" "document ?v = document w"
      "globalCallback ?v = globalCallback w" "subscribed ?v = subscribed w"
      "intervals ?v = intervals w" "timeouts ?v = Suc 0" "invoked ?v = invoked w"
      "uncaught ?v = uncaught w"
    by (simp_all add: view_def)
  have q': "\<not> detected s ?v"
    using detected_cong [OF l f(2)] q by simp
  have shape': "intervals ?v = [(h, s)]" "timeouts ?v = Suc 0"
    "domMutationOrNodeCountIntervalCheck (lc ?v) = Some h" "user_callback (lc ?v) = Some cb"
    using shape f l by simp_all
  have ready: "steadyStateIntervals (lc ?v) + 1 \<ge> READY_AFTER_N_STEADY_STATE_INTERVALS (lc ?v)"
    using l m by simp
  have loaded: "view (tick ?v) =
           ((lc w)\<lparr>steadyStateIntervals := READY_AFTER_N_STEADY_STATE_INTERVALS (lc w),
                   intervalCount := intervalCount (lc w)
                     + READY_AFTER_N_STEADY_STATE_INTERVALS (lc w)
                     - steadyStateIntervals (lc w) - 1\<rparr>,
            script w, document w, globalCallback w, subscribed w, [], 0,
            invoked w @ [ident cb],
            uncaught w @ (if globalCallback w then [] else [ReferenceError]))"
    using quiet_load [OF shape' q' ready] l f m by simp
  then have "intervals (tick ?v) = []" "timeouts (tick ?v) = 0"
    by (simp_all add: view_def)
  from run_terminal [OF this, of k]
  have "view (run (replicate n Tick) w) = view (tick ?v)"
    unfolding n run_ticks_add run_ticks_Suc .
  with loaded False show ?thesis by simp
qed


lemma run_ticks_Suc2: "run (replicate (Suc n) Tick) w = run (replicate n Tick) (tick w)"
  by (simp add: run_def)

text \<open>
  Claim C2, as the code has it. A page loads the Prototype text and calls
  \<open>callWhenReadyToGo\<close> on an unused watcher with a valid configuration; the document
  never changes afterwards. (The mutation-based observer is in use when the host has a
  working \<open>MutationObserver\<close> and the document has an element to observe.) With the
  mutation-based observer, or with the polling
  observer on a document of no element, the callback is called at tick \<open>READY\<close>; with
  the polling observer on a document that has elements it is called at tick
  \<open>READY + 1\<close>, because the first tick compares the count with the initial 0 and sees a
  change. In both cases the callback is called once and never again, and the interval
  timer is cleared (and no timeout is pending) from that very tick on.
\<close>

theorem unchanged_document_callback:
  assumes fresh: "script w = Prototype" "\<not> usedInstance (lc w)" "\<not> setIntervalFails w"
      "intervals w = []" "timeouts w = 0"
    and cfg: "0 < READY_AFTER_N_STEADY_STATE_INTERVALS (lc w)"
      "READY_AFTER_N_STEADY_STATE_INTERVALS (lc w) < EXIT_REGARDLESS_AFTER_MAX_INTERVALS (lc w)"
  shows "let w' = run (replicate n Tick) (snd (callWhenReadyToGo cb w));
             fires = (if mutationSupport w = Available \<or> countElements (document w) = 0
                      then READY_AFTER_N_STEADY_STATE_INTERVALS (lc w)
                      else READY_AFTER_N_STEADY_STATE_INTERVALS (lc w) + 1)
         in invoked w' = invoked w @ (if int n < fires then [] else [ident cb])
          \<and> intervals w' =
              (if int n < fires
               then [(nextHandle w, if observable w then MutationBased else PollingBased)]
               else [])
          \<and> timeouts w' = (if int n < fires then 1 else 0)"
proof -
  let ?w0 = "snd (callWhenReadyToGo cb w)"
  let ?s = "if observable w then MutationBased else PollingBased"
  let ?h = "nextHandle w"
  from callWhenReadyToGo_starts(2) [OF fresh(2,3) cfg, of cb]
  have l0: "lc ?w0 =
           (lc w)\<lparr>usedInstance := True, steadyStateIntervals := 0, mutationsCount := 0,
                    intervalCount := 1, lastKnownNodeCountForMutationEvent := 0,
                    lastKnownNodeCountForNodeCountCheck := 0,
                    domMutationOrNodeCountIntervalCheck := Some ?h,
                    user_callback := Some cb\<rparr>"
    and f0: "script ?w0 = script w" "document ?w0 = document w"
      "intervals ?w0 = [(?h, ?s)]" "timeouts ?w0 = Suc 0" "invoked ?w0 = invoked w"
    using fresh by (simp_all add: view_def)
  have shape0: "intervals ?w0 = [(?h, ?s)]" "timeouts ?w0 = Suc 0"
    "domMutationOrNodeCountIntervalCheck (lc ?w0) = Some ?h" "user_callback (lc ?w0) = Some cb"
    using f0 l0 by simp_all
  show ?thesis
  proof (cases "mutationSupport w = Available \<or> countElements (document w) = 0")
    case True
    then have "\<not> observable w \<Longrightarrow> countElements (document w) = 0"
      using unobservable_count [of w] by blast
    then have q: "\<not> detected ?s ?w0"
      by (cases "observable w") (simp_all add: detected_def l0 f0)
    have st: "steadyStateIntervals (lc ?w0) < READY_AFTER_N_STEADY_STATE_INTERVALS (lc ?w0)"
      using cfg by (simp add: l0)
    have ic: "intervalCount (lc ?w0) + READY_AFTER_N_STEADY_STATE_INTERVALS (lc ?w0)
               \<le> EXIT_REGARDLESS_AFTER_MAX_INTERVALS (lc ?w0) + steadyStateIntervals (lc ?w0) + 1"
      using cfg by (simp add: l0)
    from quiet_watch [OF shape0 q st ic, of n] True show ?thesis
      by (simp add: view_def Let_def l0 f0 split: if_splits)
  next
    case False
    then have s: "?s = PollingBased" and c: "countElements (document w) \<noteq> 0"
      by (auto simp add: observable_def split: if_splits)
    show ?thesis
    proof (cases n)
      case 0
      with False cfg f0 show ?thesis
        by (simp add: run_def Let_def)
    next
      case (Suc n')
      let ?w1 = "tick ?w0"
      have d: "detected PollingBased ?w0"
        using c by (simp add: detected_def l0 f0)
      have np: "script ?w0 \<noteq> Public"
        using fresh f0 by simp
      have v1: "view ?w1 =
           ((lc ?w0)\<lparr>lastKnownNodeCountForNodeCountCheck := countElements (document w),
                      intervalCount := 2\<rparr>,
            script ?w0, document ?w0, globalCallback ?w0, subscribed ?w0, intervals ?w0,
            Suc 0, invoked ?w0, uncaught ?w0)"
        using cfg d
        by (simp add: tick_view [OF shape0] runObserver_lc [OF np] s l0 f0 Let_def)
      then have l1: "lc ?w1 =
           (lc ?w0)\<lparr>lastKnownNodeCountForNodeCountCheck := countElements (document w),
                      intervalCount := 2\<rparr>"
        and f1: "document ?w1 = document w" "intervals ?w1 = [(?h, ?s)]"
          "timeouts ?w1 = Suc 0" "invoked ?w1 = invoked w"
        using f0 by (simp_all add: view_def)
      have shape1: "intervals ?w1 = [(?h, ?s)]" "timeouts ?w1 = Suc 0"
        "domMutationOrNodeCountIntervalCheck (lc ?w1) = Some ?h"
        "user_callback (lc ?w1) = Some cb"
        using f1 l1 l0 by simp_all
      have q: "\<not> detected ?s ?w1"
        by (simp add: s detected_def l1 f1)
      have st: "steadyStateIntervals (lc ?w1) < READY_AFTER_N_STEADY_STATE_INTERVALS (lc ?w1)"
        using cfg by (simp add: l1 l0)
      have ic: "intervalCount (lc ?w1) + READY_AFTER_N_STEADY_STATE_INTERVALS (lc ?w1)
               \<le> EXIT_REGARDLESS_AFTER_MAX_INTERVALS (lc ?w1) + steadyStateIntervals (lc ?w1) + 1"
        using cfg by (simp add: l1 l0)
      from quiet_watch [OF shape1 q st ic, of n'] False show ?thesis
        unfolding Suc run_ticks_Suc2
        by (simp add: view_def Let_def l1 l0 f1 split: if_splits)
    qed
  qed
qed

theorem unchanged_document_callback_witness:
  "invoked (run (replicate 6 Tick)
      (snd (callWhenReadyToGo (Callback 7 False)
              (page Prototype [Node ELEMENT_NODE []] Unavailable True)))) = [7]
   \<and> intervals (run (replicate 6 Tick)
      (snd (callWhenReadyToGo (Callback 7 False)
              (page Prototype [Node ELEMENT_NODE []] Unavailable True)))) = []
   \<and> timeouts (run (replicate 6 Tick)
      (snd (callWhenReadyToGo (Callback 7 False)
              (page Prototype [Node ELEMENT_NODE []] Unavailable True)))) = 0"
proof -
  let ?w = "page Prototype [Node ELEMENT_NODE []] Unavailable True"
  have fresh: "script ?w = Prototype" "\<not> usedInstance (lc ?w)" "\<not> setIntervalFails ?w"
    "intervals ?w = []" "timeouts ?w = 0"
    by (simp_all add: page_def LoadChecker_new_def)
  have cfg: "0 < READY_AFTER_N_STEADY_STATE_INTERVALS (lc ?w)"
    "READY_AFTER_N_STEADY_STATE_INTERVALS (lc ?w) < EXIT_REGARDLESS_AFTER_MAX_INTERVALS (lc ?w)"
    by (simp_all add: page_def LoadChecker_new_def)
  have more: "mutationSupport ?w = Unavailable" "countElements (document ?w) = 1"
    "READY_AFTER_N_STEADY_STATE_INTERVALS (lc ?w) = 5" "invoked ?w = []"
    by (simp_all add: page_def LoadChecker_new_def)
  from unchanged_document_callback [OF fresh cfg, of 6 "Callback 7 False"]
  show ?thesis
    by (simp add: Let_def more)
qed


text \<open>
  Claim C2 as stated fails for the polling observer: on a page of one element, with the
  constructor's threshold of 5, no callback has been called after 5 ticks; it is called
  at the sixth.
\<close>

theorem unchanged_document_polling_counterexample:
  "READY_AFTER_N_STEADY_STATE_INTERVALS
     (lc (page Prototype [Node ELEMENT_NODE []] Unavailable True)) = 5
   \<and> invoked (run (replicate 5 Tick)
        (snd (callWhenReadyToGo (Callback 7 False)
                (page Prototype [Node ELEMENT_NODE []] Unavailable True)))) = []
   \<and> invoked (run (replicate 6 Tick)
        (snd (callWhenReadyToGo (Callback 7 False)
                (page Prototype [Node ELEMENT_NODE []] Unavailable True)))) = [7]"
  by code_simp


section \<open>A document that changes on every tick\<close>

lemma domChange_fields:
  "script (domChange d w) = script w"
  "document (domChange d w) = d"
  "globalCallback (domChange d w) = globalCallback w"
  "subscribed (domChange d w) = subscribed w"
  "intervals (domChange d w) = intervals w"
  "timeouts (domChange d w) = timeouts w"
  "invoked (domChange d w) = invoked w"
  "uncaught (domChange d w) = uncaught w"
  by (simp_all add: domChange_def mutationCallback_def log_def Let_def)

lemma domChange_lc_fields:
  "READY_AFTER_N_STEADY_STATE_INTERVALS (lc (domChange d w)) = READY_AFTER_N_STEADY_STATE_INTERVALS (lc w)"
  "EXIT_REGARDLESS_AFTER_MAX_INTERVALS (lc (domChange d w)) = EXIT_REGARDLESS_AFTER_MAX_INTERVALS (lc w)"
  "domMutationOrNodeCountIntervalCheck (lc (domChange d w)) = domMutationOrNodeCountIntervalCheck (lc w)"
  "user_callback (lc (domChange d w)) = user_callback (lc w)"
  "usedInstance (lc (domChange d w)) = usedInstance (lc w)"
  "intervalCount (lc (domChange d w)) = intervalCount (lc w)"
  "steadyStateIntervals (lc (domChange d w)) = steadyStateIntervals (lc w)"
  "lastKnownNodeCountForNodeCountCheck (lc (domChange d w)) = lastKnownNodeCountForNodeCountCheck (lc w)"
  by (simp_all add: domChange_def mutationCallback_def log_def Let_def)




lemma run_Cons: "run (e # es) w = run es (step e w)"
  by (simp add: run_def)







section \<open>Falling back to the polling observer\<close>

lemma setupMutationObserverIfPossible_unavailable:
  assumes "\<not> observable w"
  shows "\<exists>ex. observeDocument w = Inl ex
            \<and> setupMutationObserverIfPossible w = (False, log (ObserverUnavailable ex) w)"
  using assms
  by (cases "mutationSupport w"; cases "documentElement w")
     (simp_all add: observeDocument_def setupMutationObserverIfPossible_def observable_def)

text \<open>
  Claim C9. When the host has no \<open>MutationObserver\<close>, or its \<open>observe\<close> throws (as a
  host failure, or because the document has no element to observe), the exception stays
  inside \<open>_setupMutationObserverIfPossible\<close>, which returns \<open>false\<close>;
  on an unused watcher with a valid configuration (and a working \<open>setInterval\<close>)
  \<open>_setupLoadChecker\<close> and \<open>callWhenReadyToGo\<close> return without an exception, nothing
  is subscribed, the interval timer is registered for the polling observer, the next
  check is scheduled, and the next firing of the timer runs \<open>_nodeCountChangeObserver\<close>.
\<close>

theorem mutation_setup_failure_falls_back:
  assumes unsupported: "mutationSupport w \<noteq> Available \<or> documentElement w = None"
    and fresh: "script w = Prototype" "\<not> usedInstance (lc w)" "\<not> setIntervalFails w"
      "intervals w = []"
    and cfg: "0 < READY_AFTER_N_STEADY_STATE_INTERVALS (lc w)"
      "READY_AFTER_N_STEADY_STATE_INTERVALS (lc w) < EXIT_REGARDLESS_AFTER_MAX_INTERVALS (lc w)"
  shows "(\<exists>ex. observeDocument w = Inl ex)
       \<and> fst (setupMutationObserverIfPossible w) = False
       \<and> fst (setupLoadChecker w) = None
       \<and> fst (callWhenReadyToGo cb w) = None
       \<and> subscribed (snd (callWhenReadyToGo cb w)) = subscribed w
       \<and> intervals (snd (callWhenReadyToGo cb w)) = [(nextHandle w, PollingBased)]
       \<and> timeouts (snd (callWhenReadyToGo cb w)) = Suc (timeouts w)
       \<and> intervalFire (snd (callWhenReadyToGo cb w))
            = nodeCountChangeObserver (snd (callWhenReadyToGo cb w))"
proof -
  let ?w0 = "snd (callWhenReadyToGo cb w)"
  from unsupported have no: "\<not> observable w"
    by (auto simp add: observable_def)
  from setupMutationObserverIfPossible_unavailable [OF no]
  have a: "\<exists>ex. observeDocument w = Inl ex" "fst (setupMutationObserverIfPossible w) = False"
    by auto
  have b: "fst (setupLoadChecker w) = None"
    using no fresh(3)
    by (cases "mutationSupport w";
        cases "find (\<lambda>n. nodeType n = ELEMENT_NODE) (document w)")
       (simp_all add: setupLoadChecker_def initializeCounters_def startIntervalCheck_def
          setupMutationObserverIfPossible_def observeDocument_def documentElement_def
          observable_def setInterval_def log_def)
  from callWhenReadyToGo_starts [OF fresh(2,3) cfg, of cb] no fresh
  have c: "fst (callWhenReadyToGo cb w) = None" "subscribed ?w0 = subscribed w"
    "intervals ?w0 = [(nextHandle w, PollingBased)]" "timeouts ?w0 = Suc (timeouts w)"
    "script ?w0 = Prototype"
    by (simp_all add: view_def)
  have d: "intervalFire ?w0 = nodeCountChangeObserver ?w0"
    using c by (simp add: intervalFire_single runObserver_def)
  from a b c d show ?thesis by simp
qed

theorem mutation_setup_failure_falls_back_witness:
  "fst (callWhenReadyToGo (Callback 7 False) (page Prototype [] ObserveThrows True)) = None
   \<and> intervals (snd (callWhenReadyToGo (Callback 7 False)
                        (page Prototype [] ObserveThrows True))) = [(1, PollingBased)]"
proof -
  let ?w = "page Prototype [] ObserveThrows True"
  have unsupported: "mutationSupport ?w \<noteq> Available \<or> documentElement ?w = None"
    by (simp add: page_def)
  have fresh: "script ?w = Prototype" "\<not> usedInstance (lc ?w)" "\<not> setIntervalFails ?w"
    "intervals ?w = []"
    by (simp_all add: page_def LoadChecker_new_def)
  have cfg: "0 < READY_AFTER_N_STEADY_STATE_INTERVALS (lc ?w)"
    "READY_AFTER_N_STEADY_STATE_INTERVALS (lc ?w) < EXIT_REGARDLESS_AFTER_MAX_INTERVALS (lc ?w)"
    by (simp_all add: page_def LoadChecker_new_def)
  have h: "nextHandle ?w = 1"
    by (simp add: page_def)
  from mutation_setup_failure_falls_back [OF unsupported fresh cfg, of "Callback 7 False"]
  show ?thesis
    by (simp add: h)
qed

section \<open>What a run never changes; the second call\<close>

lemma keeps_refl: "keeps w w"
  by (auto simp add: keeps_def split: option.splits intro: exI [of _ 0])

lemma keeps_trans: "keeps w v \<Longrightarrow> keeps v u \<Longrightarrow> keeps w u"
  by (auto simp add: keeps_def replicate_add [symmetric] split: option.splits)

lemma keeps_cong:
  "lc u = lc v \<Longrightarrow> subscribed u = subscribed v \<Longrightarrow> invoked u = invoked v \<Longrightarrow>
   keeps w u = keeps w v"
  by (simp add: keeps_def cong: option.case_cong)

lemma keeps_runObserver: "keeps w (runObserver s w)"
  by (auto simp add: keeps_def runObserver_fields runObserver_lc_fields split: option.splits
        intro: exI [of _ 0])

lemma cleanupLoadChecker_fields:
  "lc (cleanupLoadChecker w) = lc w"
  "subscribed (cleanupLoadChecker w) = subscribed w"
  "invoked (cleanupLoadChecker w) = invoked w"
  "timeouts (cleanupLoadChecker w) = timeouts w"
  "uncaught (cleanupLoadChecker w) = uncaught w"
  "console (cleanupLoadChecker w) = console w"
  by (simp_all add: cleanupLoadChecker_def clearInterval_def split: option.splits)

lemma cleanupLoadChecker_intervals:
  "domMutationOrNodeCountIntervalCheck (lc w) = Some h \<Longrightarrow>
   intervals (cleanupLoadChecker w) = filter (\<lambda>p. fst p \<noteq> h) (intervals w)"
  by (simp add: cleanupLoadChecker_def clearInterval_def)

lemmas step_defs =
  executeCallbackAfterPageIsLoaded_def isPageLoaded_def callUserCallback_def
  cleanupAndRethrow_def invoke_def logWithCallback_def setTimeout_def log_def

lemma keeps_execute: "keeps w (snd (executeCallbackAfterPageIsLoaded w))"
proof (cases "user_callback (lc w)")
  case None
  then show ?thesis
    by (simp add: keeps_def step_defs cleanupLoadChecker_fields Let_def)
next
  case (Some c)
  have "invoked w @ [ident c] = invoked w @ replicate 1 (ident c)"
    by simp
  then have one: "\<exists>k. invoked w @ [ident c] = invoked w @ replicate k (ident c)"
    by (rule exI)
  have "invoked w = invoked w @ replicate 0 (ident c)"
    by simp
  then have none: "\<exists>k. invoked w = invoked w @ replicate k (ident c)"
    by (rule exI)
  from Some one none show ?thesis
    by (simp add: keeps_def step_defs cleanupLoadChecker_fields Let_def)
qed

lemma keeps_timerCall: "keeps w (timerCall w)"
proof (cases "executeCallbackAfterPageIsLoaded w")
  case (Pair r v)
  with keeps_execute [of w] have "keeps w v"
    by simp
  with Pair show ?thesis
    by (cases r)
       (simp_all add: timerCall_def keeps_cong [of "v\<lparr>uncaught := uncaught v @ [e]\<rparr>" v for e])
qed

lemma keeps_fireTimeouts: "keeps w (fireTimeouts n w)"
proof (induction n arbitrary: w)
  case 0
  show ?case by (simp add: keeps_refl)
next
  case (Suc n)
  from keeps_timerCall Suc show ?case
    by (auto intro: keeps_trans)
qed

lemma keeps_fold_runObserver: "keeps w (fold (\<lambda>p. runObserver (snd p)) ps w)"
proof (induction ps arbitrary: w)
  case Nil
  show ?case by (simp add: keeps_refl)
next
  case (Cons p ps)
  from keeps_runObserver [of w "snd p"] Cons [of "runObserver (snd p) w"] show ?case
    by (auto intro: keeps_trans)
qed

lemma keeps_tick: "keeps w (tick w)"
proof -
  let ?v = "intervalFire w"
  have a: "keeps w ?v"
    by (simp add: intervalFire_def keeps_fold_runObserver)
  have b: "keeps ?v (?v\<lparr>timeouts := 0\<rparr>)"
    by (simp add: keeps_cong [of "?v\<lparr>timeouts := 0\<rparr>" ?v] keeps_refl)
  have c: "keeps (?v\<lparr>timeouts := 0\<rparr>) (tick w)"
    by (simp add: tick_def timeoutFire_def keeps_fireTimeouts)
  from a b c show ?thesis
    by (blast intro: keeps_trans)
qed

lemma keeps_domChange: "keeps w (domChange d w)"
  by (auto simp add: keeps_def domChange_fields domChange_lc_fields split: option.splits
        intro: exI [of _ 0])

lemma keeps_run: "keeps w (run es w)"
proof (induction es arbitrary: w)
  case Nil
  show ?case by (simp add: run_def keeps_refl)
next
  case (Cons e es)
  have "keeps w (step e w)"
    by (cases e) (simp_all add: keeps_tick keeps_domChange)
  with Cons [of "step e w"] show ?case
    by (auto simp add: run_Cons intro: keeps_trans)
qed

lemma callWhenReadyToGo_sets_used: "usedInstance (lc (snd (callWhenReadyToGo cb w)))"
proof (cases "usedInstance (lc w)")
  case True
  then show ?thesis by (simp add: callWhenReadyToGo_used log_def)
next
  case False
  let ?w1 = "w\<lparr>lc := (lc w)\<lparr>usedInstance := True\<rparr>\<rparr>"
  show ?thesis
  proof (cases "fst (validateConfiguration ?w1)")
    case (Some ex)
    with False show ?thesis
      by (simp add: callWhenReadyToGo_def validateConfiguration_def log_def split: if_splits)
  next
    case None
    then have v: "validateConfiguration ?w1 = (None, ?w1)"
      by (simp add: validateConfiguration_def split: if_splits)
    have s: "usedInstance (lc (snd (setupLoadChecker ?w1)))"
      by (cases "mutationSupport w";
          cases "find (\<lambda>n. nodeType n = ELEMENT_NODE) (document w)")
         (simp_all add: setupLoadChecker_def initializeCounters_def startIntervalCheck_def
            setupMutationObserverIfPossible_def observeDocument_def documentElement_def
            setInterval_def log_def)
    show ?thesis
    proof (cases "setupLoadChecker ?w1")
      case (Pair r w3)
      with s have u: "usedInstance (lc w3)" by simp
      let ?w4 = "w3\<lparr>lc := (lc w3)\<lparr>user_callback := Some cb\<rparr>\<rparr>"
      from keeps_execute [of ?w4] u
      have "usedInstance (lc (snd (executeCallbackAfterPageIsLoaded ?w4)))"
        by (simp add: keeps_def)
      with False v Pair u show ?thesis
        by (cases r) (simp_all add: callWhenReadyToGo_def)
    qed
  qed
qed

text \<open>
  Claim C7. After a first call of \<open>callWhenReadyToGo\<close>, whatever its outcome and
  whatever happened since (\<open>es\<close>), a second call throws the reuse error and returns a
  page that differs from the one before in its console only: no field of the watcher is
  altered, no timer is registered and nothing is subscribed. From then on (\<open>es'\<close>) the
  stored callback is the one stored before the second call, and every callback called
  is that one: the callback given to the second call is never stored and never called.
\<close>

theorem second_call_is_refused:
  "fst (callWhenReadyToGo cb2 (run es (snd (callWhenReadyToGo cb1 w)))) = Some ReuseError
   \<and> snd (callWhenReadyToGo cb2 (run es (snd (callWhenReadyToGo cb1 w))))
       = (run es (snd (callWhenReadyToGo cb1 w)))
           \<lparr>console := console (run es (snd (callWhenReadyToGo cb1 w))) @ [InstanceReused]\<rparr>
   \<and> keeps (run es (snd (callWhenReadyToGo cb1 w)))
         (run es' (snd (callWhenReadyToGo cb2 (run es (snd (callWhenReadyToGo cb1 w))))))"
proof -
  let ?w1 = "run es (snd (callWhenReadyToGo cb1 w))"
  from keeps_run [of "snd (callWhenReadyToGo cb1 w)" es] callWhenReadyToGo_sets_used [of cb1 w]
  have used: "usedInstance (lc ?w1)"
    by (simp add: keeps_def)
  then have call: "callWhenReadyToGo cb2 ?w1 = (Some ReuseError, log InstanceReused ?w1)"
    by (rule callWhenReadyToGo_used)
  have "keeps ?w1 (log InstanceReused ?w1) = keeps ?w1 ?w1"
    by (rule keeps_cong) (simp_all add: log_def)
  then have "keeps ?w1 (log InstanceReused ?w1)"
    by (simp add: keeps_refl)
  with keeps_run [of "log InstanceReused ?w1" es']
  have "keeps ?w1 (run es' (log InstanceReused ?w1))"
    by (blast intro: keeps_trans)
  with call show ?thesis
    by (simp add: log_def)
qed

section \<open>Exit paths and resources\<close>

lemma execute_exit:
  assumes h: "domMutationOrNodeCountIntervalCheck (lc w) = Some h"
  shows "if READY_AFTER_N_STEADY_STATE_INTERVALS (lc w) \<le> steadyStateIntervals (lc w)
            \<or> EXIT_REGARDLESS_AFTER_MAX_INTERVALS (lc w) < intervalCount (lc w) + 1
         then h \<notin> fst ` set (intervals (snd (executeCallbackAfterPageIsLoaded w)))
            \<and> timeouts (snd (executeCallbackAfterPageIsLoaded w)) = timeouts w
         else fst (executeCallbackAfterPageIsLoaded w) = None
            \<and> intervals (snd (executeCallbackAfterPageIsLoaded w)) = intervals w
            \<and> timeouts (snd (executeCallbackAfterPageIsLoaded w)) = Suc (timeouts w)"
proof (cases "user_callback (lc w)")
  case None
  with h show ?thesis
    by (auto simp add: step_defs cleanupLoadChecker_fields cleanupLoadChecker_intervals Let_def)
next
  case (Some c)
  with h show ?thesis
    by (auto simp add: step_defs cleanupLoadChecker_fields cleanupLoadChecker_intervals Let_def)
qed

lemma setup_exception:
  assumes "setIntervalFails v" "\<not> usedInstance (lc v)"
    and "READY_AFTER_N_STEADY_STATE_INTERVALS (lc v) < EXIT_REGARDLESS_AFTER_MAX_INTERVALS (lc v)"
  shows "fst (callWhenReadyToGo cb v) = Some SetupError
       \<and> intervals (snd (callWhenReadyToGo cb v)) = intervals v
       \<and> timeouts (snd (callWhenReadyToGo cb v)) = timeouts v
       \<and> subscribed (snd (callWhenReadyToGo cb v))
           = (subscribed v \<or> observable v)"
  using assms
  by (cases "mutationSupport v";
      cases "find (\<lambda>n. nodeType n = ELEMENT_NODE) (document v)")
     (simp_all add: setup_defs log_def observable_def)

text \<open>
  Claim C5, as the code has it. A run of \<open>_executeCallbackAfterPageIsLoaded\<close> that
  ends the watch (the page is loaded, whether the callback returns or throws, or the
  budget is exceeded) leaves no interval timer under the watcher's handle and schedules
  no timeout; a run that does not end it returns normally, keeps the timer and
  schedules the next check. When \<open>setInterval\<close> fails in setup, the call throws the
  setup error with no timer registered. The subscription of the \<open>MutationObserver\<close> is
  never released: no timer callback and no event changes it, and a setup that fails
  after subscribing (which takes a working \<open>MutationObserver\<close> and a document with an
  element) leaves it in place.
\<close>

theorem exit_paths_clear_interval:
  "(domMutationOrNodeCountIntervalCheck (lc w) = Some h \<longrightarrow>
      (if READY_AFTER_N_STEADY_STATE_INTERVALS (lc w) \<le> steadyStateIntervals (lc w)
          \<or> EXIT_REGARDLESS_AFTER_MAX_INTERVALS (lc w) < intervalCount (lc w) + 1
       then h \<notin> fst ` set (intervals (snd (executeCallbackAfterPageIsLoaded w)))
          \<and> timeouts (snd (executeCallbackAfterPageIsLoaded w)) = timeouts w
       else fst (executeCallbackAfterPageIsLoaded w) = None
          \<and> intervals (snd (executeCallbackAfterPageIsLoaded w)) = intervals w
          \<and> timeouts (snd (executeCallbackAfterPageIsLoaded w)) = Suc (timeouts w)))
   \<and> subscribed (snd (executeCallbackAfterPageIsLoaded w)) = subscribed w
   \<and> subscribed (run es w) = subscribed w
   \<and> (setIntervalFails v \<and> \<not> usedInstance (lc v)
        \<and> READY_AFTER_N_STEADY_STATE_INTERVALS (lc v) < EXIT_REGARDLESS_AFTER_MAX_INTERVALS (lc v)
      \<longrightarrow> fst (callWhenReadyToGo cb v) = Some SetupError
        \<and> intervals (snd (callWhenReadyToGo cb v)) = intervals v
        \<and> timeouts (snd (callWhenReadyToGo cb v)) = timeouts v
        \<and> subscribed (snd (callWhenReadyToGo cb v))
            = (subscribed v \<or> observable v))"
proof -
  have a: "subscribed (snd (executeCallbackAfterPageIsLoaded w)) = subscribed w"
    using keeps_execute [of w] by (simp add: keeps_def)
  have b: "subscribed (run es w) = subscribed w"
    using keeps_run [of w es] by (simp add: keeps_def)
  from a b execute_exit [of w h] setup_exception [of v cb] show ?thesis
    by blast
qed

theorem exit_paths_clear_interval_witness:
  "1 \<notin> fst ` set (intervals (snd (executeCallbackAfterPageIsLoaded
        ((page Prototype [Node ELEMENT_NODE []] Available True)
           \<lparr>lc := LoadChecker_new\<lparr>domMutationOrNodeCountIntervalCheck := Some 1,
                                   user_callback := Some (Callback 7 True),
                                   steadyStateIntervals := 5\<rparr>,
             subscribed := True, intervals := [(1, MutationBased)]\<rparr>))))
   \<and> subscribed (snd (executeCallbackAfterPageIsLoaded
        ((page Prototype [Node ELEMENT_NODE []] Available True)
           \<lparr>lc := LoadChecker_new\<lparr>domMutationOrNodeCountIntervalCheck := Some 1,
                                   user_callback := Some (Callback 7 True),
                                   steadyStateIntervals := 5\<rparr>,
             subscribed := True, intervals := [(1, MutationBased)]\<rparr>)))
   \<and> fst (callWhenReadyToGo (Callback 7 True)
           ((page Prototype [Node ELEMENT_NODE []] Available True)\<lparr>setIntervalFails := True\<rparr>)) = Some SetupError
   \<and> intervals (snd (callWhenReadyToGo (Callback 7 True)
           ((page Prototype [Node ELEMENT_NODE []] Available True)\<lparr>setIntervalFails := True\<rparr>))) = []
   \<and> subscribed (snd (callWhenReadyToGo (Callback 7 True)
           ((page Prototype [Node ELEMENT_NODE []] Available True)\<lparr>setIntervalFails := True\<rparr>)))"
proof -
  let ?w = "(page Prototype [Node ELEMENT_NODE []] Available True)
           \<lparr>lc := LoadChecker_new\<lparr>domMutationOrNodeCountIntervalCheck := Some 1,
                                   user_callback := Some (Callback 7 True),
                                   steadyStateIntervals := 5\<rparr>,
             subscribed := True, intervals := [(1, MutationBased)]\<rparr>"
  let ?v = "(page Prototype [Node ELEMENT_NODE []] Available True)\<lparr>setIntervalFails := True\<rparr>"
  have w: "domMutationOrNodeCountIntervalCheck (lc ?w) = Some 1"
    "READY_AFTER_N_STEADY_STATE_INTERVALS (lc ?w) \<le> steadyStateIntervals (lc ?w)"
    "subscribed ?w"
    by (simp_all add: page_def LoadChecker_new_def)
  have v: "setIntervalFails ?v" "\<not> usedInstance (lc ?v)"
    "READY_AFTER_N_STEADY_STATE_INTERVALS (lc ?v) < EXIT_REGARDLESS_AFTER_MAX_INTERVALS (lc ?v)"
    "intervals ?v = []" "observable ?v"
    by (simp_all add: page_def LoadChecker_new_def observable_def documentElement_def)
  from exit_paths_clear_interval [of ?w 1 "[]" ?v "Callback 7 True"] w v
  show ?thesis
    by simp
qed

text \<open>
  Claim C5 as stated fails. A page whose document has a root element with one child,
  on a host with a working \<open>MutationObserver\<close>, starts a watch. After five ticks the
  watch has ended, with the callback called, the timer cleared and no timeout pending,
  and the \<open>MutationObserver\<close> is still subscribed.
\<close>

theorem subscription_outlives_watch:
  "invoked (run (replicate 5 Tick)
      (snd (callWhenReadyToGo (Callback 7 False) (page Prototype [Node ELEMENT_NODE [Node ELEMENT_NODE []]] Available True)))) = [7]
   \<and> intervals (run (replicate 5 Tick)
      (snd (callWhenReadyToGo (Callback 7 False) (page Prototype [Node ELEMENT_NODE [Node ELEMENT_NODE []]] Available True)))) = []
   \<and> timeouts (run (replicate 5 Tick)
      (snd (callWhenReadyToGo (Callback 7 False) (page Prototype [Node ELEMENT_NODE [Node ELEMENT_NODE []]] Available True)))) = 0
   \<and> subscribed (run (replicate 5 Tick)
      (snd (callWhenReadyToGo (Callback 7 False) (page Prototype [Node ELEMENT_NODE [Node ELEMENT_NODE []]] Available True))))"
  by code_simp

lemma callback_error_logged_with_global_callback:
  assumes "globalCallback w" "user_callback (lc w) = Some c" "raises c"
    and "domMutationOrNodeCountIntervalCheck (lc w) = Some h"
    and "READY_AFTER_N_STEADY_STATE_INTERVALS (lc w) \<le> steadyStateIntervals (lc w)"
  shows "fst (executeCallbackAfterPageIsLoaded w) = None
       \<and> console (snd (executeCallbackAfterPageIsLoaded w))
           = console w @ [PageLoaded, CallbackFailed (UserError (ident c)), CleaningUp]
       \<and> invoked (snd (executeCallbackAfterPageIsLoaded w)) = invoked w @ [ident c]
       \<and> h \<notin> fst ` set (intervals (snd (executeCallbackAfterPageIsLoaded w)))"
  using assms
  by (auto simp add: step_defs cleanupLoadChecker_fields cleanupLoadChecker_intervals Let_def)

lemma callback_error_lost_without_global_callback:
  assumes "\<not> globalCallback w" "user_callback (lc w) = Some c"
    and "domMutationOrNodeCountIntervalCheck (lc w) = Some h"
    and "READY_AFTER_N_STEADY_STATE_INTERVALS (lc w) \<le> steadyStateIntervals (lc w)"
  shows "fst (executeCallbackAfterPageIsLoaded w) = Some ReferenceError
       \<and> console (snd (executeCallbackAfterPageIsLoaded w))
           = console w @ [PageLoaded, CleaningUp, CleaningUpAfter ReferenceError]
       \<and> invoked (snd (executeCallbackAfterPageIsLoaded w)) = invoked w @ [ident c]
       \<and> h \<notin> fst ` set (intervals (snd (executeCallbackAfterPageIsLoaded w)))"
  using assms
  by (auto simp add: step_defs cleanupLoadChecker_fields cleanupLoadChecker_intervals Let_def)

text \<open>
  Claim C4, at the input where the code departs from it. The page, a document of one
  element on a host with a working \<open>MutationObserver\<close>, declares no global variable
  \<open>callback\<close> (as in the usage example of the header comment) and the user callback
  throws. At the fifth tick the callback is called and throws; the \<open>catch\<close>
  evaluates \<open>callback\<close> for its log line, which throws a \<open>ReferenceError\<close>; the
  \<open>finally\<close> and the outer \<open>catch\<close> clear the timer, and the \<open>ReferenceError\<close>
  leaves the timer callback. The console holds no line for the callback's own error.
  On the same page with a global \<open>callback\<close> declared, nothing leaves the timer
  callback and the console holds the callback's error (in general: the two lemmas
  above).
\<close>

theorem callback_error_without_global_callback:
  "raises (Callback 7 True)
   \<and> invoked (run (replicate 5 Tick)
      (snd (callWhenReadyToGo (Callback 7 True) (page Prototype [Node ELEMENT_NODE []] Available False)))) = [7]
   \<and> uncaught (run (replicate 5 Tick)
      (snd (callWhenReadyToGo (Callback 7 True) (page Prototype [Node ELEMENT_NODE []] Available False))))
       = [ReferenceError]
   \<and> intervals (run (replicate 5 Tick)
      (snd (callWhenReadyToGo (Callback 7 True) (page Prototype [Node ELEMENT_NODE []] Available False)))) = []
   \<and> console (run (replicate 5 Tick)
      (snd (callWhenReadyToGo (Callback 7 True) (page Prototype [Node ELEMENT_NODE []] Available False))))
       = [ObserverSetUp, UsingMutationObserver, DomSteady, DomSteady, DomSteady, DomSteady,
          DomSteady, PageLoaded, CleaningUp, CleaningUpAfter ReferenceError]
   \<and> uncaught (run (replicate 5 Tick)
      (snd (callWhenReadyToGo (Callback 7 True) (page Prototype [Node ELEMENT_NODE []] Available True)))) = []
   \<and> console (run (replicate 5 Tick)
      (snd (callWhenReadyToGo (Callback 7 True) (page Prototype [Node ELEMENT_NODE []] Available True))))
       = [ObserverSetUp, UsingMutationObserver, DomSteady, DomSteady, DomSteady, DomSteady,
          DomSteady, PageLoaded, CallbackFailed (UserError 7), CleaningUp]"
  by code_simp

section \<open>The two strategies against the tracker\<close>

lemma watch_domChange:
  "watch s w \<Longrightarrow> watch s (domChange d w) \<and> tracked (domChange d w) = tracked w"
  by (simp add: watch_def tracked_def domChange_fields domChange_lc_fields)

lemma watch_tick:
  assumes "watch s w"
  shows "watch s (tick w)
       \<and> tracked (tick w) =
           (if intervals w = [] then tracked w else trackerTick (detected s w) (tracked w))"
proof -
  from assms obtain h c where np: "script w \<noteq> Public"
    and c: "user_callback (lc w) = Some c"
    and h: "domMutationOrNodeCountIntervalCheck (lc w) = Some h"
    and cases: "intervals w = [(h, s)] \<and> timeouts w = Suc 0
               \<and> steadyStateIntervals (lc w) < READY_AFTER_N_STEADY_STATE_INTERVALS (lc w)
             \<or> intervals w = [] \<and> timeouts w = 0"
    by (auto simp add: watch_def)
  from cases show ?thesis
  proof
    assume run: "intervals w = [(h, s)] \<and> timeouts w = Suc 0
               \<and> steadyStateIntervals (lc w) < READY_AFTER_N_STEADY_STATE_INTERVALS (lc w)"
    then have shape: "intervals w = [(h, s)]" "timeouts w = Suc 0"
      "domMutationOrNodeCountIntervalCheck (lc w) = Some h" "user_callback (lc w) = Some c"
      using h c by simp_all
    from tick_view [OF shape] np h c run show ?thesis
      by (cases s)
         (auto simp add: view_def watch_def tracked_def trackerTick_def Let_def
            runObserver_lc [OF np] split: if_splits)
  next
    assume ended: "intervals w = [] \<and> timeouts w = 0"
    then have "view (tick w) = view w"
      by (simp add: tick_terminal)
    with assms ended show ?thesis
      by (simp add: view_def watch_def tracked_def)
  qed
qed

lemma run_refines_tracker:
  "watch s w \<Longrightarrow>
   watch s (run es w) \<and> tracked (run es w) = fold trackerTick (signals s es w) (tracked w)"
proof (induction es arbitrary: w)
  case Nil
  then show ?case by (simp add: run_def)
next
  case (Cons e es)
  show ?case
  proof (cases e)
    case Tick
    from watch_tick [OF Cons.prems]
    have a: "watch s (tick w)"
      and b: "tracked (tick w) =
           (if intervals w = [] then tracked w else trackerTick (detected s w) (tracked w))"
      by simp_all
    from Cons.IH [OF a] b show ?thesis
      by (simp add: Tick run_Cons)
  next
    case (DomChange d)
    from watch_domChange [OF Cons.prems, of d]
    have a: "watch s (domChange d w)" and b: "tracked (domChange d w) = tracked w"
      by simp_all
    from Cons.IH [OF a] b show ?thesis
      by (simp add: DomChange run_Cons)
  qed
qed

lemma strategies_agree:
  assumes "watch MutationBased a" "watch PollingBased b" "tracked a = tracked b"
    and "signals MutationBased ea a = signals PollingBased eb b"
  shows "tracked (run ea a) = tracked (run eb b)"
  using run_refines_tracker [OF assms(1), of ea] run_refines_tracker [OF assms(2), of eb]
    assms(3,4)
  by simp

lemma callWhenReadyToGo_watch:
  assumes "script w = Prototype" "\<not> usedInstance (lc w)" "\<not> setIntervalFails w"
    "intervals w = []" "timeouts w = 0"
    and "0 < READY_AFTER_N_STEADY_STATE_INTERVALS (lc w)"
    and "READY_AFTER_N_STEADY_STATE_INTERVALS (lc w) < EXIT_REGARDLESS_AFTER_MAX_INTERVALS (lc w)"
  shows "watch (if observable w then MutationBased else PollingBased)
           (snd (callWhenReadyToGo cb w))
       \<and> tracked (snd (callWhenReadyToGo cb w)) =
           \<lparr> steadyIntervalsRequired = READY_AFTER_N_STEADY_STATE_INTERVALS (lc w),
             maxIntervals = EXIT_REGARDLESS_AFTER_MAX_INTERVALS (lc w),
             consecutiveSteadyIntervals = 0, elapsedIntervals = 1, verdict = Watching \<rparr>"
  using callWhenReadyToGo_starts(2) [OF assms(2,3,6,7), of cb] assms
  by (simp add: view_def watch_def tracked_def)

lemma prototype_strategies_agree:
  assumes a: "script a = Prototype" "\<not> usedInstance (lc a)" "\<not> setIntervalFails a"
      "intervals a = []" "timeouts a = 0" "observable a"
    and b: "script b = Prototype" "\<not> usedInstance (lc b)" "\<not> setIntervalFails b"
      "intervals b = []" "timeouts b = 0" "\<not> observable b"
    and cfg: "0 < READY_AFTER_N_STEADY_STATE_INTERVALS (lc a)"
      "READY_AFTER_N_STEADY_STATE_INTERVALS (lc a) < EXIT_REGARDLESS_AFTER_MAX_INTERVALS (lc a)"
      "READY_AFTER_N_STEADY_STATE_INTERVALS (lc b) = READY_AFTER_N_STEADY_STATE_INTERVALS (lc a)"
      "EXIT_REGARDLESS_AFTER_MAX_INTERVALS (lc b) = EXIT_REGARDLESS_AFTER_MAX_INTERVALS (lc a)"
    and sig: "signals MutationBased ea (snd (callWhenReadyToGo ca a))
                = signals PollingBased eb (snd (callWhenReadyToGo cb b))"
  shows "tracked (run ea (snd (callWhenReadyToGo ca a)))
           = tracked (run eb (snd (callWhenReadyToGo cb b)))"
proof -
  from callWhenReadyToGo_watch [OF a(1-5) cfg(1,2), of ca] a(6)
  have wa: "watch MutationBased (snd (callWhenReadyToGo ca a))"
    and ta: "tracked (snd (callWhenReadyToGo ca a)) =
           \<lparr> steadyIntervalsRequired = READY_AFTER_N_STEADY_STATE_INTERVALS (lc a),
             maxIntervals = EXIT_REGARDLESS_AFTER_MAX_INTERVALS (lc a),
             consecutiveSteadyIntervals = 0, elapsedIntervals = 1, verdict = Watching \<rparr>"
    by simp_all
  have cfgb: "0 < READY_AFTER_N_STEADY_STATE_INTERVALS (lc b)"
    "READY_AFTER_N_STEADY_STATE_INTERVALS (lc b) < EXIT_REGARDLESS_AFTER_MAX_INTERVALS (lc b)"
    using cfg by simp_all
  from callWhenReadyToGo_watch [OF b(1-5) cfgb, of cb] b(6) cfg(3,4)
  have wb: "watch PollingBased (snd (callWhenReadyToGo cb b))"
    and tb: "tracked (snd (callWhenReadyToGo cb b)) =
           \<lparr> steadyIntervalsRequired = READY_AFTER_N_STEADY_STATE_INTERVALS (lc a),
             maxIntervals = EXIT_REGARDLESS_AFTER_MAX_INTERVALS (lc a),
             consecutiveSteadyIntervals = 0, elapsedIntervals = 1, verdict = Watching \<rparr>"
    by simp_all
  from ta tb have "tracked (snd (callWhenReadyToGo ca a)) = tracked (snd (callWhenReadyToGo cb b))"
    by simp
  from strategies_agree [OF wa wb this sig] show ?thesis .
qed

text \<open>
  Claim C8, at the input where the code departs from it. Two pages load
  \<open>src/public/javascripts/load-checker.js\<close>, one with a \<open>MutationObserver\<close> and one
  without, and start a watch on a document of one element. The element is touched
  before the first tick, five ticks pass, a child is added to the element, two more
  ticks pass. Both observers find the same signals (changed, four times unchanged,
  changed, unchanged); the mutation-based watch is still watching, the polling watch has
  declared the page loaded and called the callback. (In both texts of part_000 the
  two strategies follow the same tracker, so equal signals give equal verdicts at every
  tick: \<open>strategies_agree\<close> and \<open>prototype_strategies_agree\<close>.)
\<close>

theorem public_strategies_disagree:
  "signals MutationBased
     [DomChange [Node ELEMENT_NODE []], Tick, Tick, Tick, Tick, Tick,
      DomChange [Node ELEMENT_NODE [Node ELEMENT_NODE []]], Tick, Tick]
     (snd (callWhenReadyToGo_static (Callback 7 False)
        (page Public [Node ELEMENT_NODE []] Available True)))
     = [True, False, False, False, False, True, False]
   \<and> signals PollingBased
     [DomChange [Node ELEMENT_NODE []], Tick, Tick, Tick, Tick, Tick,
      DomChange [Node ELEMENT_NODE [Node ELEMENT_NODE []]], Tick, Tick]
     (snd (callWhenReadyToGo_static (Callback 7 False)
        (page Public [Node ELEMENT_NODE []] Unavailable True)))
     = [True, False, False, False, False, True, False]
   \<and> verdict (tracked (run
     [DomChange [Node ELEMENT_NODE []], Tick, Tick, Tick, Tick, Tick,
      DomChange [Node ELEMENT_NODE [Node ELEMENT_NODE []]], Tick, Tick]
     (snd (callWhenReadyToGo_static (Callback 7 False)
        (page Public [Node ELEMENT_NODE []] Available True)))))
     = Watching
   \<and> verdict (tracked (run
     [DomChange [Node ELEMENT_NODE []], Tick, Tick, Tick, Tick, Tick,
      DomChange [Node ELEMENT_NODE [Node ELEMENT_NODE []]], Tick, Tick]
     (snd (callWhenReadyToGo_static (Callback 7 False)
        (page Public [Node ELEMENT_NODE []] Unavailable True)))))
     = Loaded
   \<and> invoked (run
     [DomChange [Node ELEMENT_NODE []], Tick, Tick, Tick, Tick, Tick,
      DomChange [Node ELEMENT_NODE [Node ELEMENT_NODE []]], Tick, Tick]
     (snd (callWhenReadyToGo_static (Callback 7 False)
        (page Public [Node ELEMENT_NODE []] Available True))))
     = []
   \<and> invoked (run
     [DomChange [Node ELEMENT_NODE []], Tick, Tick, Tick, Tick, Tick,
      DomChange [Node ELEMENT_NODE [Node ELEMENT_NODE []]], Tick, Tick]
     (snd (callWhenReadyToGo_static (Callback 7 False)
        (page Public [Node ELEMENT_NODE []] Unavailable True))))
     = [7]"
  by code_simp

end
